theory Spec2Isabelle
  imports Main
begin

section \<open>JavaScript values and the object store\<close>

text \<open>
  The dispatcher of \<^verbatim>\<open>src/handle-request.js\<close> works on mutable JavaScript objects that
  are shared between the pipeline, the application's handlers and the response it
  hands to \<^verbatim>\<open>done\<close>. Objects therefore live in an explicit store: a value is a
  primitive or a reference, an object maps property names to values, and a property
  that is missing reads as \<^verbatim>\<open>undefined\<close>. Numbers are restricted to integers; no
  function of the file does arithmetic on them.
\<close>

type_synonym ref = nat

datatype jsval = JUndefined | JNull | JBool bool | JNum int | JStr string | JRef ref

type_synonym obj = "string \<rightharpoonup> jsval"

record heap =
  cells :: "ref \<Rightarrow> obj"
  nextRef :: ref

definition getProp :: "heap \<Rightarrow> ref \<Rightarrow> string \<Rightarrow> jsval" where
  "getProp h r k = (case cells h r k of None \<Rightarrow> JUndefined | Some v \<Rightarrow> v)"

definition setProp :: "heap \<Rightarrow> ref \<Rightarrow> string \<Rightarrow> jsval \<Rightarrow> heap" where
  "setProp h r k v = h\<lparr>cells := (cells h)(r := (cells h r)(k \<mapsto> v))\<rparr>"

text \<open>An object literal allocates the next unused reference.\<close>

definition alloc :: "heap \<Rightarrow> obj \<Rightarrow> ref \<times> heap" where
  "alloc h ob = (nextRef h, h\<lparr>cells := (cells h)(nextRef h := ob), nextRef := Suc (nextRef h)\<rparr>)"

text \<open>JavaScript truthiness, as tested by \<^verbatim>\<open>if (x)\<close>, \<^verbatim>\<open>!x\<close> and \<^verbatim>\<open>x ? a : b\<close>.\<close>

fun truthy :: "jsval \<Rightarrow> bool" where
  "truthy JUndefined = False"
| "truthy JNull = False"
| "truthy (JBool b) = b"
| "truthy (JNum n) = (n \<noteq> 0)"
| "truthy (JStr s) = (s \<noteq> [])"
| "truthy (JRef r) = True"

fun isRef :: "jsval \<Rightarrow> bool" where
  "isRef (JRef r) = True"
| "isRef v = False"

section \<open>Data model\<close>

text \<open>
  Errors are values. \<^verbatim>\<open>parseError\<close> comes from \<^verbatim>\<open>./error-handler\<close>, which is not part
  of the file; it is a parameter of the dispatcher, applied to the message of the
  \<^verbatim>\<open>Error\<close> it converts. \<open>TypeError\<close> is what the engine raises when a property of
  \<^verbatim>\<open>undefined\<close> or \<^verbatim>\<open>null\<close> is read, or when a property is assigned on a primitive (the
  file is in strict mode).
\<close>

datatype 'e error = Thrown 'e | TypeError

record slot =
  slotName :: string
  slotValue :: jsval

text \<open>
  The object a handler receives as \<^verbatim>\<open>slots\<close>: its own properties and its prototype,
  which is \<^verbatim>\<open>Object.prototype\<close> for the \<^verbatim>\<open>{}\<close> it starts as. Objects of the store are
  plain objects, with \<^verbatim>\<open>Object.prototype\<close> as their prototype.
\<close>

datatype prototype = ObjectPrototype | NullPrototype | ObjectAt ref

record slots =
  props :: "string \<rightharpoonup> jsval"
  proto :: prototype

record intentRequest =
  intentName :: string
  intentSlots :: "slot list option"

text \<open>
  The request JSON: \<^verbatim>\<open>data.session.new\<close>, \<^verbatim>\<open>data.session.attributes\<close> (an object or
  absent), \<^verbatim>\<open>data.session.application.applicationId\<close>, \<^verbatim>\<open>data.request.type\<close> and
  \<^verbatim>\<open>data.request.intent\<close>.
\<close>

record request =
  sessionNew :: bool
  sessionAttributes :: "ref option"
  applicationId :: string
  requestType :: string
  requestIntent :: "intentRequest option"

text \<open>
  A handler is a JavaScript function of the application. The pipeline reads its
  declared parameter count (\<^verbatim>\<open>handler.length\<close>) and calls it in one of two ways:
  \<^item> \<open>call3\<close> is the call \<^verbatim>\<open>handler(slots, attrs, data)\<close>: the value it returns and the
    store it leaves;
  \<^item> \<open>call4\<close> is the call \<^verbatim>\<open>handler(slots, attrs, data, optionsReady)\<close>: a run in which
    the function (or work it scheduled) fires the callback with a value in some
    store, and goes on from the store the callback leaves, until it stops.
  The function may write to any object it can reach, \<^verbatim>\<open>attrs\<close> included. It is taken
  to return: an exception of application code is not caught by the pipeline and is no
  outcome of it.
\<close>

datatype run = Stop heap | Fire jsval heap "heap \<Rightarrow> run"

record handler =
  arity :: nat
  call3 :: "slots \<Rightarrow> ref \<Rightarrow> request \<Rightarrow> heap \<Rightarrow> jsval \<times> heap"
  call4 :: "slots \<Rightarrow> ref \<Rightarrow> request \<Rightarrow> heap \<Rightarrow> run"

record intent =
  name :: string
  handler :: handler

text \<open>
  What \<^verbatim>\<open>app.intents[name]\<close> can be when it is truthy: an intent the application
  registered, or a member that the object \<^verbatim>\<open>app.intents\<close> inherits from
  \<^verbatim>\<open>Object.prototype\<close>, of which the pipeline reads \<^verbatim>\<open>name\<close> (given here) and \<^verbatim>\<open>handler\<close>
  (which it does not have).
\<close>

datatype intentValue = Registered intent | Inherited jsval

fun nameOf :: "intentValue \<Rightarrow> jsval" where
  "nameOf (Registered i) = JStr (name i)"
| "nameOf (Inherited n) = n"

fun handlerOf :: "intentValue \<Rightarrow> handler option" where
  "handlerOf (Registered i) = Some (handler i)"
| "handlerOf (Inherited n) = None"

text \<open>
  An action \<^verbatim>\<open>{from, to, if, fail}\<close>. The predicate \<^verbatim>\<open>if(slots, attrs)\<close> is application
  code as well: it returns a value, tested for truthiness, and the store it leaves.
\<close>

record action =
  afrom :: string
  ato :: string
  aif :: "(slot list option \<Rightarrow> ref \<Rightarrow> heap \<Rightarrow> jsval \<times> heap) option"
  afail :: "handler option"

record appOptions =
  ids :: "string list option"
  version :: jsval

text \<open>
  The application. \<open>intents\<close> holds the own properties of \<^verbatim>\<open>app.intents\<close>, an ordinary
  object.
\<close>

record app =
  intents :: "string \<rightharpoonup> intent"
  actions :: "action list"
  options :: "appOptions option"

record handlers =
  onStart :: handler
  onEnd :: handler
  defaultActionFail :: handler

datatype outputSpeech = PlainText jsval | SSML jsval

text \<open>
  The response object. \<open>respAttributes\<close> is its \<^verbatim>\<open>sessionAttributes\<close> field, a reference
  into the store; \<open>respVersion\<close> its \<^verbatim>\<open>version\<close>; \<open>respCard\<close> its \<^verbatim>\<open>response.card\<close>.
\<close>

record response =
  respVersion :: jsval
  respAttributes :: jsval
  respOutputSpeech :: outputSpeech
  shouldEndSession :: jsval
  reprompt :: "outputSpeech option"
  respCard :: "jsval option"

text \<open>
  What a call of the pipeline does: the error it throws, if any; the handlers it
  invoked, each with the store it was invoked in; the responses it passed to
  \<^verbatim>\<open>done\<close>, each with the store at that moment; and the store it leaves.
\<close>

record 'e outcome =
  thrown :: "'e error option"
  invoked :: "(handler \<times> heap) list"
  delivered :: "(response \<times> heap) list"
  heapAfter :: heap

section \<open>The response synthesizer\<close>

definition createOutputSpeechObject :: "jsval \<Rightarrow> jsval \<Rightarrow> outputSpeech" where
  "createOutputSpeechObject text ssml = (if \<not> truthy ssml then PlainText text else SSML text)"

text \<open>
  Reading a property of the options value after line 175--179: a string has become
  the fresh object \<^verbatim>\<open>{text: options}\<close>; other primitives have none of the properties
  read here.
\<close>

definition optionsProp :: "heap \<Rightarrow> jsval \<Rightarrow> string \<Rightarrow> jsval" where
  "optionsProp h opts k =
     (case opts of
        JStr s \<Rightarrow> (if k = ''text'' then JStr s else JUndefined)
      | JRef r \<Rightarrow> getProp h r k
      | _ \<Rightarrow> JUndefined)"

definition optionsTruthy :: "jsval \<Rightarrow> bool" where
  "optionsTruthy opts = (case opts of JStr s \<Rightarrow> True | v \<Rightarrow> truthy v)"

definition getShouldEndSession :: "heap \<Rightarrow> jsval \<Rightarrow> jsval" where
  "getShouldEndSession h opts =
     (if \<not> optionsTruthy opts \<or> optionsProp h opts ''end'' = JUndefined then JBool True
      else optionsProp h opts ''end'')"

definition createCardObject :: "jsval \<Rightarrow> heap \<Rightarrow> ('e error + jsval) \<times> heap" where
  "createCardObject c h =
     (if truthy c then
        (case c of
           JRef r \<Rightarrow>
             (if \<not> truthy (getProp h r ''type'')
              then (Inr c, setProp h r ''type'' (JStr ''Simple''))
              else (Inr c, h))
         | _ \<Rightarrow> (Inl TypeError, h))
      else (Inr JUndefined, h))"

definition createResponse ::
  "jsval \<Rightarrow> slots \<Rightarrow> ref \<Rightarrow> app \<Rightarrow> heap \<Rightarrow> ('e error + response) \<times> heap" where
  "createResponse opts slots attrs app h =
     (if opts = JUndefined \<or> opts = JNull then (Inl TypeError, h)
      else
        let speech = createOutputSpeechObject (optionsProp h opts ''text'') (optionsProp h opts ''ssml'');
            oattrs = optionsProp h opts ''attrs''
        in if truthy oattrs \<and> \<not> isRef oattrs then (Inl TypeError, h)
           else
             let (sattrs, h1) =
                   (case oattrs of
                      JRef r \<Rightarrow> (oattrs, setProp h r ''previousIntent'' (getProp h attrs ''previousIntent''))
                    | _ \<Rightarrow> (JRef attrs, h));
                 ver = (case options app of Some ao \<Rightarrow> version ao | None \<Rightarrow> JStr ''0.0.1'');
                 ses = getShouldEndSession h1 opts;
                 rep = (if truthy (optionsProp h1 opts ''reprompt'')
                        then Some (createOutputSpeechObject (optionsProp h1 opts ''reprompt'')
                                     (optionsProp h1 opts ''ssml''))
                        else None)
             in (case createCardObject (optionsProp h1 opts ''card'') h1 of
                   (Inl e, h2) \<Rightarrow> (Inl e, h2)
                 | (Inr c, h2) \<Rightarrow>
                     (Inr \<lparr>respVersion = ver, respAttributes = sattrs, respOutputSpeech = speech,
                           shouldEndSession = ses, reprompt = rep,
                           respCard = (if truthy c then Some c else None)\<rparr>, h2)))"

section \<open>The handler invoker\<close>

text \<open>
  \<^verbatim>\<open>_.transform(slots, (result, value) => { result[value.name] = value.value; }, {})\<close>:
  the entries are visited in order, each assigned on the accumulator, which starts as
  \<^verbatim>\<open>{}\<close>; \<^verbatim>\<open>null\<close> or \<^verbatim>\<open>undefined\<close> gives \<^verbatim>\<open>{}\<close> itself.

  An assignment creates or overwrites an own property, but for the name
  \<^verbatim>\<open>__proto__\<close>: as long as the accumulator has no own property of that name and
  inherits the accessor of \<^verbatim>\<open>Object.prototype\<close> (it does not once its prototype is
  \<^verbatim>\<open>null\<close>, or is an object with an own \<^verbatim>\<open>__proto__\<close>), the assignment runs that
  accessor, which replaces the prototype when the value is an object or \<^verbatim>\<open>null\<close> and
  does nothing otherwise.
\<close>

definition emptySlots :: slots where
  "emptySlots = \<lparr>props = Map.empty, proto = ObjectPrototype\<rparr>"

definition inheritsProtoAccessor :: "heap \<Rightarrow> slots \<Rightarrow> bool" where
  "inheritsProtoAccessor h result =
     (props result ''__proto__'' = None \<and>
      (case proto result of
         ObjectPrototype \<Rightarrow> True
       | NullPrototype \<Rightarrow> False
       | ObjectAt r \<Rightarrow> cells h r ''__proto__'' = None))"

definition assignSlot :: "heap \<Rightarrow> slots \<Rightarrow> slot \<Rightarrow> slots" where
  "assignSlot h result v =
     (if slotName v = ''__proto__'' \<and> inheritsProtoAccessor h result then
        (case slotValue v of
           JRef r \<Rightarrow> result\<lparr>proto := ObjectAt r\<rparr>
         | JNull \<Rightarrow> result\<lparr>proto := NullPrototype\<rparr>
         | _ \<Rightarrow> result)
      else result\<lparr>props := (props result)(slotName v \<mapsto> slotValue v)\<rparr>)"

definition transformSlots :: "heap \<Rightarrow> slot list option \<Rightarrow> slots" where
  "transformSlots h s =
     (case s of
        None \<Rightarrow> emptySlots
      | Some xs \<Rightarrow> foldl (assignSlot h) emptySlots xs)"

text \<open>\<^verbatim>\<open>optionsReady(options)\<close> is \<^verbatim>\<open>done(createResponse(options, slots, attrs, app))\<close>.\<close>

definition optionsReady :: "slots \<Rightarrow> ref \<Rightarrow> app \<Rightarrow> jsval \<Rightarrow> heap \<Rightarrow> 'e outcome" where
  "optionsReady slots attrs app opts h =
     (case createResponse opts slots attrs app h of
        (Inl e, h') \<Rightarrow> \<lparr>thrown = Some e, invoked = [], delivered = [], heapAfter = h'\<rparr>
      | (Inr resp, h') \<Rightarrow> \<lparr>thrown = None, invoked = [], delivered = [(resp, h')], heapAfter = h'\<rparr>)"

text \<open>
  Following a handler that was given the callback: each firing runs \<open>optionsReady\<close>,
  and the handler goes on in the store that leaves. An error thrown inside the
  callback ends the run.
\<close>

primrec drive :: "run \<Rightarrow> slots \<Rightarrow> ref \<Rightarrow> app \<Rightarrow> 'e outcome" where
  "drive (Stop h) slots attrs app = \<lparr>thrown = None, invoked = [], delivered = [], heapAfter = h\<rparr>"
| "drive (Fire v h k) slots attrs app =
     (let r = optionsReady slots attrs app v h in
      case thrown r of
        Some e \<Rightarrow> r
      | None \<Rightarrow>
          (let r' = drive (k (heapAfter r)) slots attrs app
           in r'\<lparr>delivered := delivered r @ delivered r'\<rparr>))"

definition callHandler :: "handler \<Rightarrow> slot list option \<Rightarrow> ref \<Rightarrow> app \<Rightarrow> request \<Rightarrow> heap \<Rightarrow> 'e outcome" where
  "callHandler f slots attrs app data h =
     (let slots' = transformSlots h slots;
          r = (if arity f < 3
               then (case call3 f slots' attrs data h of (opts, h1) \<Rightarrow> optionsReady slots' attrs app opts h1)
               else drive (call4 f slots' attrs data h) slots' attrs app)
      in r\<lparr>invoked := (f, h) # invoked r\<rparr>)"

text \<open>An outcome that is an error thrown, with nothing invoked or delivered.\<close>

definition throwing :: "'e error \<Rightarrow> heap \<Rightarrow> 'e outcome" where
  "throwing e h = \<lparr>thrown = Some e, invoked = [], delivered = [], heapAfter = h\<rparr>"

text \<open>
  \<^verbatim>\<open>callHandler(intent.handler, ...)\<close>, where \<^verbatim>\<open>intent.handler\<close> may be \<^verbatim>\<open>undefined\<close>: line 78
  then raises a \<^verbatim>\<open>TypeError\<close> on \<^verbatim>\<open>handler.length\<close>, before anything is called.
\<close>

definition callHandlerOf ::
  "handler option \<Rightarrow> slot list option \<Rightarrow> ref \<Rightarrow> app \<Rightarrow> request \<Rightarrow> heap \<Rightarrow> 'e outcome" where
  "callHandlerOf fo slots attrs app data h =
     (case fo of
        None \<Rightarrow> throwing TypeError h
      | Some f \<Rightarrow> callHandler f slots attrs app data h)"

section \<open>The transition policy evaluator\<close>

text \<open>
  \<^verbatim>\<open>_.find(app.actions, {from: f, to: t})\<close> of lodash: the first element, in array order,
  whose \<^verbatim>\<open>from\<close> and \<^verbatim>\<open>to\<close> are strictly equal to \<open>f\<close> and \<open>t\<close>. The fields of an action
  are strings, so a value \<open>f\<close> or \<open>t\<close> that is not a string matches none.
\<close>

definition matchesAction :: "jsval \<Rightarrow> jsval \<Rightarrow> action \<Rightarrow> bool" where
  "matchesAction f t a = (JStr (afrom a) = f \<and> JStr (ato a) = t)"

definition findAction :: "action list \<Rightarrow> jsval \<Rightarrow> jsval \<Rightarrow> action option" where
  "findAction as f t = List.find (matchesAction f t) as"

text \<open>Lines 111--119: the three lookups, each tried only when the one before found nothing.\<close>

definition lookupAction :: "action list \<Rightarrow> jsval \<Rightarrow> jsval \<Rightarrow> action option" where
  "lookupAction as previousIntent intentName' =
     (case findAction as previousIntent intentName' of
        Some a \<Rightarrow> Some a
      | None \<Rightarrow>
          (case findAction as previousIntent (JStr ''*'') of
             Some a \<Rightarrow> Some a
           | None \<Rightarrow> findAction as (JStr ''*'') intentName'))"

text \<open>\<^verbatim>\<open>action.if ? action.if(slots, attrs) : true\<close>\<close>

definition evalIf :: "action \<Rightarrow> slot list option \<Rightarrow> ref \<Rightarrow> heap \<Rightarrow> jsval \<times> heap" where
  "evalIf a slots attrs h = (case aif a of Some p \<Rightarrow> p slots attrs h | None \<Rightarrow> (JBool True, h))"

definition checkActionsAndHandle ::
  "intentValue \<Rightarrow> slot list option \<Rightarrow> ref \<Rightarrow> app \<Rightarrow> handlers \<Rightarrow> request \<Rightarrow> heap \<Rightarrow> 'e outcome" where
  "checkActionsAndHandle intent slots attrs app handlers data h =
     (if length (actions app) = 0 then
        callHandlerOf (handlerOf intent) slots attrs app data
          (setProp h attrs ''previousIntent'' (nameOf intent))
      else
        (case lookupAction (actions app) (getProp h attrs ''previousIntent'') (nameOf intent) of
           Some a \<Rightarrow>
             (case evalIf a slots attrs h of
                (c, h1) \<Rightarrow>
                  if truthy c then
                    callHandlerOf (handlerOf intent) slots attrs app data
                      (setProp h1 attrs ''previousIntent'' (nameOf intent))
                  else
                    (case afail a of
                       Some f \<Rightarrow> callHandler f slots attrs app data h1
                     | None \<Rightarrow> callHandler (defaultActionFail handlers) slots attrs app data h1))
         | None \<Rightarrow> callHandler (defaultActionFail handlers) slots attrs app data h))"

section \<open>The request dispatcher\<close>

text \<open>
  The exported function, here \<open>handleRequest\<close>. Its calls of \<^verbatim>\<open>info\<close> and \<^verbatim>\<open>debug\<close> only
  log and are left out.

  Line 19: the application ids are given, not empty, and do not contain the request's id.
\<close>

definition invalidAppId :: "app \<Rightarrow> request \<Rightarrow> bool" where
  "invalidAppId app data =
     (case options app of
        None \<Rightarrow> False
      | Some ao \<Rightarrow>
          (case ids ao of
             None \<Rightarrow> False
           | Some xs \<Rightarrow> length xs > 0 \<and> applicationId data \<notin> set xs))"

text \<open>
  Lines 24--30: the session attributes the rest of the pipeline works on. The request
  is updated (its \<^verbatim>\<open>session.attributes\<close> is reassigned) and the reference is returned.
\<close>

definition bootstrap :: "request \<Rightarrow> heap \<Rightarrow> request \<times> ref \<times> heap" where
  "bootstrap data h =
     (if sessionNew data then
        (case alloc h [''previousIntent'' \<mapsto> JStr ''@start''] of
           (r, h') \<Rightarrow> (data\<lparr>sessionAttributes := Some r\<rparr>, r, h'))
      else
        (case sessionAttributes data of
           None \<Rightarrow> (case alloc h Map.empty of (r, h') \<Rightarrow> (data\<lparr>sessionAttributes := Some r\<rparr>, r, h'))
         | Some r \<Rightarrow> (data, r, h)))"

text \<open>
  Line 44, \<^verbatim>\<open>app.intents[name]\<close>: an own property if there is one, and otherwise what the
  object inherits under that name. \<open>inheritedName k\<close> is the \<^verbatim>\<open>name\<close> property of the member
  of \<^verbatim>\<open>Object.prototype\<close> called \<open>k\<close>: \<^verbatim>\<open>"Object"\<close> for \<^verbatim>\<open>constructor\<close>, nothing for
  \<^verbatim>\<open>__proto__\<close> (the prototype object itself), and its own name for each of the methods.
\<close>

definition inheritedName :: "string \<Rightarrow> jsval option" where
  "inheritedName k =
     (if k = ''constructor'' then Some (JStr ''Object'')
      else if k = ''__proto__'' then Some JUndefined
      else if k \<in> set [''__defineGetter__'', ''__defineSetter__'', ''hasOwnProperty'',
                        ''__lookupGetter__'', ''__lookupSetter__'', ''isPrototypeOf'',
                        ''propertyIsEnumerable'', ''toString'', ''valueOf'', ''toLocaleString'']
      then Some (JStr k)
      else None)"

definition lookupIntent :: "app \<Rightarrow> string \<Rightarrow> intentValue option" where
  "lookupIntent app k =
     (case intents app k of
        Some i \<Rightarrow> Some (Registered i)
      | None \<Rightarrow> map_option Inherited (inheritedName k))"

definition quoted :: "string \<Rightarrow> string" where
  "quoted s = [CHR 0x27] @ s @ [CHR 0x27]"

definition handleRequest ::
  "(string \<Rightarrow> 'e) \<Rightarrow> app \<Rightarrow> request \<Rightarrow> handlers \<Rightarrow> heap \<Rightarrow> 'e outcome" where
  "handleRequest parseError app data handlers h =
     (if invalidAppId app data then
        throwing (Thrown (parseError (''Application id: '' @ quoted (applicationId data) @ '' is not valid''))) h
      else
        (case bootstrap data h of
           (data1, attrs, h1) \<Rightarrow>
             if requestType data1 = ''LaunchRequest'' then
               callHandler (onStart handlers) None attrs app data1 h1
             else if requestType data1 = ''IntentRequest'' then
               (case requestIntent data1 of
                  None \<Rightarrow> throwing TypeError h1
                | Some rq \<Rightarrow>
                    (case lookupIntent app (intentName rq) of
                       None \<Rightarrow>
                         throwing (Thrown (parseError (''Nonexistent intent: '' @ quoted (intentName rq)))) h1
                     | Some intent \<Rightarrow>
                         checkActionsAndHandle intent (intentSlots rq) attrs app handlers data1 h1))
             else if requestType data1 = ''SessionEndedRequest'' then
               callHandler (onEnd handlers) None attrs app data1 h1
             else
               throwing (Thrown (parseError (''Unsupported request: '' @ quoted (requestType data1)))) h1))"

section \<open>Specification-side notions\<close>

text \<open>
  The three tiers of the action lookup as the specification words them, for the
  current \<^verbatim>\<open>attrs.previousIntent\<close> (any value) and the requested intent's name.
\<close>

definition exactTier :: "jsval \<Rightarrow> string \<Rightarrow> action \<Rightarrow> bool" where
  "exactTier previousIntent nm a = (JStr (afrom a) = previousIntent \<and> ato a = nm)"

definition wildcardTargetTier :: "jsval \<Rightarrow> action \<Rightarrow> bool" where
  "wildcardTargetTier previousIntent a = (JStr (afrom a) = previousIntent \<and> ato a = ''*'')"

definition wildcardSourceTier :: "string \<Rightarrow> action \<Rightarrow> bool" where
  "wildcardSourceTier nm a = (afrom a = ''*'' \<and> ato a = nm)"

text \<open>\<open>a\<close> is the first action of the list, in declaration order, that satisfies \<open>P\<close>.\<close>

definition firstInOrder :: "(action \<Rightarrow> bool) \<Rightarrow> action list \<Rightarrow> action \<Rightarrow> bool" where
  "firstInOrder P as a = (\<exists>i<length as. as ! i = a \<and> P a \<and> (\<forall>j<i. \<not> P (as ! j)))"

definition noneIn :: "(action \<Rightarrow> bool) \<Rightarrow> action list \<Rightarrow> bool" where
  "noneIn P as = (\<forall>a\<in>set as. \<not> P a)"

text \<open>
  \<^verbatim>\<open>sessionAttributes.previousIntent\<close> of a response, read in the store it was delivered in.
\<close>

definition responsePrevious :: "response \<times> heap \<Rightarrow> jsval" where
  "responsePrevious d =
     (case respAttributes (fst d) of JRef r \<Rightarrow> getProp (snd d) r ''previousIntent'' | _ \<Rightarrow> JUndefined)"

text \<open>
  The intent's own handler is selected: the policy is disabled, or an action matches
  and its \<^verbatim>\<open>if\<close> predicate (true when absent) holds. \<open>storeAfterIf\<close> is the store that
  predicate leaves, \<open>fallbackHandler\<close> the handler selected otherwise.
\<close>

definition ownHandlerSelected :: "intentValue \<Rightarrow> slot list option \<Rightarrow> ref \<Rightarrow> app \<Rightarrow> heap \<Rightarrow> bool" where
  "ownHandlerSelected intent slots attrs app h =
     (actions app = [] \<or>
      (case lookupAction (actions app) (getProp h attrs ''previousIntent'') (nameOf intent) of
         Some a \<Rightarrow> truthy (fst (evalIf a slots attrs h))
       | None \<Rightarrow> False))"

definition storeAfterIf :: "intentValue \<Rightarrow> slot list option \<Rightarrow> ref \<Rightarrow> app \<Rightarrow> heap \<Rightarrow> heap" where
  "storeAfterIf intent slots attrs app h =
     (if actions app = [] then h
      else (case lookupAction (actions app) (getProp h attrs ''previousIntent'') (nameOf intent) of
              Some a \<Rightarrow> snd (evalIf a slots attrs h)
            | None \<Rightarrow> h))"

definition fallbackHandler :: "intentValue \<Rightarrow> ref \<Rightarrow> app \<Rightarrow> handlers \<Rightarrow> heap \<Rightarrow> handler" where
  "fallbackHandler intent attrs app handlers h =
     (case lookupAction (actions app) (getProp h attrs ''previousIntent'') (nameOf intent) of
        Some a \<Rightarrow> (case afail a of Some f \<Rightarrow> f | None \<Rightarrow> defaultActionFail handlers)
      | None \<Rightarrow> defaultActionFail handlers)"

text \<open>
  The slots a request is dispatched with: those of its intent for an
  \<^verbatim>\<open>IntentRequest\<close>, none otherwise.
\<close>

definition dispatchedSlots :: "request \<Rightarrow> slot list option" where
  "dispatchedSlots data =
     (if requestType data = ''IntentRequest''
      then (case requestIntent data of Some rq \<Rightarrow> intentSlots rq | None \<Rightarrow> None)
      else None)"

text \<open>
  Application code that leaves \<^verbatim>\<open>attrs.previousIntent\<close> alone. A run keeps the value \<open>v\<close>
  when each firing of the callback happens in a store where \<^verbatim>\<open>attrs.previousIntent\<close> is
  \<open>v\<close>, as long as the callback returns with it so. A handler keeps it when its call,
  in the convention its parameter count selects, does.
\<close>

primrec keepsPrevious :: "ref \<Rightarrow> jsval \<Rightarrow> run \<Rightarrow> bool" where
  "keepsPrevious attrs v (Stop h) = True"
| "keepsPrevious attrs v (Fire x h k) =
     (getProp h attrs ''previousIntent'' = v
      \<and> (\<forall>h'. getProp h' attrs ''previousIntent'' = v \<longrightarrow> keepsPrevious attrs v (k h')))"

definition handlerKeeps :: "handler \<Rightarrow> slots \<Rightarrow> ref \<Rightarrow> request \<Rightarrow> heap \<Rightarrow> bool" where
  "handlerKeeps f s attrs data h =
     (if arity f < 3
      then getProp (snd (call3 f s attrs data h)) attrs ''previousIntent'' = getProp h attrs ''previousIntent''
      else keepsPrevious attrs (getProp h attrs ''previousIntent'') (call4 f s attrs data h))"


section \<open>Example inputs\<close>

text \<open>
  A store with the carried attributes at 0, an options object at 1 whose card is the
  object at 2 (a card without a type), and an options object at 4 that supplies the
  attributes object at 3.
\<close>

definition exHeap :: heap where
  "exHeap = \<lparr>cells = (\<lambda>r. Map.empty)
                (0 := [''previousIntent'' \<mapsto> JStr ''@start''],
                 1 := [''text'' \<mapsto> JStr ''Hi'', ''card'' \<mapsto> JRef 2],
                 2 := [''text'' \<mapsto> JStr ''Body''],
                 3 := [''previousIntent'' \<mapsto> JStr ''Forged'', ''score'' \<mapsto> JNum 7],
                 4 := [''text'' \<mapsto> JStr ''Hi'', ''attrs'' \<mapsto> JRef 3]),
              nextRef = 5\<rparr>"

text \<open>\<^verbatim>\<open>(slots, attrs) => v\<close>: given a callback it never fires it.\<close>

definition replyWith :: "jsval \<Rightarrow> handler" where
  "replyWith v = \<lparr>arity = 2, call3 = (\<lambda>slots attrs data h. (v, h)),
                  call4 = (\<lambda>slots attrs data h. Stop h)\<rparr>"

text \<open>\<^verbatim>\<open>(slots, attrs, data, done) => { if (done) done(v); }\<close>\<close>

definition completeWith :: "jsval \<Rightarrow> handler" where
  "completeWith v = \<lparr>arity = 4, call3 = (\<lambda>slots attrs data h. (JUndefined, h)),
                     call4 = (\<lambda>slots attrs data h. Fire v h Stop)\<rparr>"

text \<open>\<^verbatim>\<open>(slots, attrs, data) => v\<close>: three declared parameters, none of them the callback.\<close>

definition threeParams :: "jsval \<Rightarrow> handler" where
  "threeParams v = \<lparr>arity = 3, call3 = (\<lambda>slots attrs data h. (v, h)),
                    call4 = (\<lambda>slots attrs data h. Stop h)\<rparr>"

definition exHandlers :: handlers where
  "exHandlers = \<lparr>onStart = replyWith (JStr ''Welcome''), onEnd = replyWith (JStr ''Bye''),
                 defaultActionFail = replyWith (JStr ''Sorry'')\<rparr>"

definition exActions :: "action list" where
  "exActions =
     [\<lparr>afrom = ''*'', ato = ''Yes'', aif = None, afail = None\<rparr>,
      \<lparr>afrom = ''@start'', ato = ''*'', aif = None, afail = None\<rparr>,
      \<lparr>afrom = ''@start'', ato = ''Yes'', aif = None, afail = Some (replyWith (JStr ''first''))\<rparr>,
      \<lparr>afrom = ''@start'', ato = ''Yes'', aif = None, afail = Some (replyWith (JStr ''second''))\<rparr>]"

text \<open>An application that gives its ids but no version.\<close>

definition exApp :: app where
  "exApp = \<lparr>intents = [''Yes'' \<mapsto> \<lparr>name = ''Yes'', handler = replyWith (JStr ''Hello'')\<rparr>],
            actions = [],
            options = Some \<lparr>ids = Some [''app-1''], version = JUndefined\<rparr>\<rparr>"

definition exRequest :: request where
  "exRequest = \<lparr>sessionNew = True, sessionAttributes = Some 3, applicationId = ''app-1'',
                requestType = ''IntentRequest'',
                requestIntent = Some \<lparr>intentName = ''Yes'', intentSlots = None\<rparr>\<rparr>"

definition yesIntent :: intent where
  "yesIntent = \<lparr>name = ''Yes'', handler = replyWith (JStr ''Hello'')\<rparr>"

text \<open>\<^verbatim>\<open>(slots, attrs) => !!slots && slots.length >= 2\<close>\<close>

definition atLeastTwo :: "slot list option \<Rightarrow> ref \<Rightarrow> heap \<Rightarrow> jsval \<times> heap" where
  "atLeastTwo slots attrs h = (JBool (case slots of None \<Rightarrow> False | Some xs \<Rightarrow> 2 \<le> length xs), h)"

definition exGuardedApp :: app where
  "exGuardedApp = \<lparr>intents = [''Yes'' \<mapsto> yesIntent],
       actions = [\<lparr>afrom = ''@start'', ato = ''Yes'', aif = Some atLeastTwo,
                   afail = Some (replyWith (JStr ''Denied''))\<rparr>,
                  \<lparr>afrom = ''Yes'', ato = ''Yes'', aif = Some atLeastTwo, afail = None\<rparr>],
       options = None\<rparr>"

definition exSlotsTwice :: "slot list option" where
  "exSlotsTwice = Some [\<lparr>slotName = ''city'', slotValue = JStr ''Oslo''\<rparr>,
                        \<lparr>slotName = ''city'', slotValue = JStr ''Rome''\<rparr>]"

definition exSlotsOnce :: "slot list option" where
  "exSlotsOnce = Some [\<lparr>slotName = ''city'', slotValue = JStr ''Rome''\<rparr>]"

definition exTwiceRequest :: request where
  "exTwiceRequest = exRequest\<lparr>requestIntent := Some \<lparr>intentName = ''Yes'', intentSlots = exSlotsTwice\<rparr>\<rparr>"

definition exLaunchRequest :: request where
  "exLaunchRequest = exRequest\<lparr>requestType := ''LaunchRequest'', requestIntent := None\<rparr>"

definition exCallbackApp :: app where
  "exCallbackApp = \<lparr>intents = [''Yes'' \<mapsto> \<lparr>name = ''Yes'', handler = completeWith (JStr ''Hello'')\<rparr>],
       actions = [], options = None\<rparr>"




text \<open>A request for an intent that no application registers.\<close>

definition exInheritedRequest :: request where
  "exInheritedRequest =
     exRequest\<lparr>requestIntent := Some \<lparr>intentName = ''constructor'', intentSlots = None\<rparr>\<rparr>"

section \<open>Session bootstrap\<close>

text \<open>
  C5. Before dispatch the session attributes are bootstrapped: when
  \<^verbatim>\<open>session.new\<close> is true they become exactly \<^verbatim>\<open>{previousIntent: "@start"}\<close>, a fresh
  object, whatever attributes the request carried (the outcome is the same for any
  incoming attributes \<open>x\<close>, and no existing object is touched); otherwise they become
  \<^verbatim>\<open>{}\<close> when the request has none, and are the request's own object, with the store
  as it was, when it has some.
\<close>

theorem bootstrap_attributes:
  "(sessionNew data \<longrightarrow>
      (\<exists>r h'. bootstrap data h = (data\<lparr>sessionAttributes := Some r\<rparr>, r, h')
          \<and> cells h' r = [''previousIntent'' \<mapsto> JStr ''@start'']
          \<and> (\<forall>r'. r' \<noteq> r \<longrightarrow> cells h' r' = cells h r')
          \<and> bootstrap (data\<lparr>sessionAttributes := x\<rparr>) h = (data\<lparr>sessionAttributes := Some r\<rparr>, r, h')))
   \<and> (\<not> sessionNew data \<and> sessionAttributes data = None \<longrightarrow>
      (\<exists>r h'. bootstrap data h = (data\<lparr>sessionAttributes := Some r\<rparr>, r, h')
          \<and> cells h' r = Map.empty
          \<and> (\<forall>r'. r' \<noteq> r \<longrightarrow> cells h' r' = cells h r')))
   \<and> (\<not> sessionNew data \<and> sessionAttributes data = Some a \<longrightarrow> bootstrap data h = (data, a, h))"
  by (simp add: bootstrap_def alloc_def)

theorem bootstrap_attributes_witness:
  "(\<exists>r h'. bootstrap exRequest exHeap = (exRequest\<lparr>sessionAttributes := Some r\<rparr>, r, h')
       \<and> cells h' r = [''previousIntent'' \<mapsto> JStr ''@start''])
   \<and> (\<exists>r h'. bootstrap (exRequest\<lparr>sessionNew := False, sessionAttributes := None\<rparr>) exHeap
                 = (exRequest\<lparr>sessionNew := False, sessionAttributes := Some r\<rparr>, r, h')
       \<and> cells h' r = Map.empty)
   \<and> bootstrap (exRequest\<lparr>sessionNew := False\<rparr>) exHeap = (exRequest\<lparr>sessionNew := False\<rparr>, 3, exHeap)"
  using bootstrap_attributes [of exRequest exHeap "Some 3" 3]
    bootstrap_attributes [of "exRequest\<lparr>sessionNew := False, sessionAttributes := None\<rparr>" exHeap None 3]
    bootstrap_attributes [of "exRequest\<lparr>sessionNew := False\<rparr>" exHeap None 3]
  by (auto simp: exRequest_def)

section \<open>The action lookup\<close>

lemma find_firstInOrder: "List.find P as = Some a \<longleftrightarrow> firstInOrder P as a"
  by (auto simp: find_Some_iff firstInOrder_def)

lemma find_noneIn: "List.find P as = None \<longleftrightarrow> noneIn P as"
  by (auto simp: find_None_iff noneIn_def)

lemma matchesAction_exact: "matchesAction p (JStr nm) = exactTier p nm"
  by (auto simp: matchesAction_def exactTier_def fun_eq_iff)

lemma matchesAction_wildcardTarget: "matchesAction p (JStr ''*'') = wildcardTargetTier p"
  by (auto simp: matchesAction_def wildcardTargetTier_def fun_eq_iff)

lemma matchesAction_wildcardSource: "matchesAction (JStr ''*'') (JStr nm) = wildcardSourceTier nm"
  by (auto simp: matchesAction_def wildcardSourceTier_def fun_eq_iff)

text \<open>
  C2. The lookup of lines 111--119, run by \<open>checkActionsAndHandle\<close> on a non-empty
  action list with \<open>p\<close> the current \<^verbatim>\<open>attrs.previousIntent\<close> and \<open>nm\<close> the intent's name,
  finds \<open>a\<close> exactly when \<open>a\<close> is the first action in declaration order of the exact
  tier; or that tier is empty and \<open>a\<close> is the first of the wildcard-target tier; or
  both are empty and \<open>a\<close> is the first of the wildcard-source tier. It finds nothing
  exactly when all three tiers are empty.
\<close>

theorem lookupAction_three_tiers:
  "(lookupAction as p (JStr nm) = Some a \<longleftrightarrow>
      firstInOrder (exactTier p nm) as a
    \<or> (noneIn (exactTier p nm) as \<and> firstInOrder (wildcardTargetTier p) as a)
    \<or> (noneIn (exactTier p nm) as \<and> noneIn (wildcardTargetTier p) as
         \<and> firstInOrder (wildcardSourceTier nm) as a))
   \<and> (lookupAction as p (JStr nm) = None \<longleftrightarrow>
      noneIn (exactTier p nm) as \<and> noneIn (wildcardTargetTier p) as \<and> noneIn (wildcardSourceTier nm) as)"
proof -
  have e: "findAction as p (JStr nm) = List.find (exactTier p nm) as"
    by (simp add: findAction_def matchesAction_exact)
  have t: "findAction as p (JStr ''*'') = List.find (wildcardTargetTier p) as"
    by (simp add: findAction_def matchesAction_wildcardTarget)
  have s: "findAction as (JStr ''*'') (JStr nm) = List.find (wildcardSourceTier nm) as"
    by (simp add: findAction_def matchesAction_wildcardSource)
  show ?thesis
    unfolding lookupAction_def e t s find_firstInOrder [symmetric] find_noneIn [symmetric]
    by (auto split: option.splits)
qed

theorem lookupAction_three_tiers_witness:
  "(firstInOrder (exactTier (JStr ''@start'') ''Yes'') exActions (exActions ! 2)
    \<or> (noneIn (exactTier (JStr ''@start'') ''Yes'') exActions
         \<and> firstInOrder (wildcardTargetTier (JStr ''@start'')) exActions (exActions ! 2))
    \<or> (noneIn (exactTier (JStr ''@start'') ''Yes'') exActions
         \<and> noneIn (wildcardTargetTier (JStr ''@start'')) exActions
         \<and> firstInOrder (wildcardSourceTier ''Yes'') exActions (exActions ! 2)))
   \<and> noneIn (exactTier (JStr ''No'') ''Maybe'') exActions"
  using lookupAction_three_tiers [of exActions "JStr ''@start''" "''Yes''" "exActions ! 2"]
    lookupAction_three_tiers [of exActions "JStr ''No''" "''Maybe''" "exActions ! 2"]
  by (simp add: lookupAction_def findAction_def matchesAction_def exActions_def)

section \<open>The version of the response\<close>

lemma createResponse_version:
  "createResponse opts slots attrs app h = (Inr resp, h') \<Longrightarrow>
     respVersion resp = (case options app of Some ao \<Rightarrow> version ao | None \<Rightarrow> JStr ''0.0.1'')"
  by (auto simp: createResponse_def Let_def split: if_splits prod.splits sum.splits)

text \<open>
  C9. The response's version is meant to be \<^verbatim>\<open>app.options.version\<close> when present and
  \<^verbatim>\<open>"0.0.1"\<close> otherwise. Line 196 tests \<^verbatim>\<open>app.options\<close>, not the version: for an
  application whose options give ids but no version, the response's version is
  \<^verbatim>\<open>undefined\<close>, not the default.
\<close>

theorem version_default_missed:
  "map_sum id respVersion (fst (createResponse (JStr ''Hello'') emptySlots 0 exApp exHeap))
     = Inr JUndefined"
  by (simp add: createResponse_def exApp_def exHeap_def optionsProp_def createCardObject_def
      createOutputSpeechObject_def getShouldEndSession_def optionsTruthy_def Let_def)

section \<open>Reading and writing the store\<close>

lemma cells_setProp: "cells (setProp h r k v) = (cells h)(r := (cells h r)(k \<mapsto> v))"
  by (simp add: setProp_def)

lemma nextRef_setProp: "nextRef (setProp h r k v) = nextRef h"
  by (simp add: setProp_def)

lemma getProp_setProp:
  "getProp (setProp h r k v) r' k' = (if r' = r \<and> k' = k then v else getProp h r' k')"
  by (simp add: getProp_def setProp_def)

lemma optionsProp_setProp:
  "k' \<noteq> k \<Longrightarrow> optionsProp (setProp h r k v) opts k' = optionsProp h opts k'"
  by (simp add: optionsProp_def getProp_setProp split: jsval.splits)

section \<open>Validation failures\<close>

lemma bootstrap_request:
  "bootstrap data h = (data1, attrs, h1) \<Longrightarrow>
     requestType data1 = requestType data \<and> requestIntent data1 = requestIntent data"
  by (auto simp: bootstrap_def split: if_splits option.splits prod.splits)

text \<open>
  What does hold: a request whose application id is not among the non-empty
  \<^verbatim>\<open>app.options.ids\<close>, an \<^verbatim>\<open>IntentRequest\<close> whose name \<^verbatim>\<open>app.intents\<close> resolves to nothing, own
  or inherited, and a request of a type other than the three known ones make the
  dispatcher throw a value of \<^verbatim>\<open>parseError\<close>, with no handler invoked and nothing passed
  to \<^verbatim>\<open>done\<close>.
\<close>

lemma validation_failures:
  assumes "(\<exists>ao xs. options app = Some ao \<and> ids ao = Some xs \<and> xs \<noteq> [] \<and> applicationId data \<notin> set xs)
     \<or> (requestType data = ''IntentRequest''
          \<and> (\<exists>rq. requestIntent data = Some rq \<and> lookupIntent app (intentName rq) = None))
     \<or> requestType data \<notin> {''LaunchRequest'', ''IntentRequest'', ''SessionEndedRequest''}"
  shows "\<exists>msg. thrown (handleRequest parseError app data handlers h) = Some (Thrown (parseError msg))
           \<and> invoked (handleRequest parseError app data handlers h) = []
           \<and> delivered (handleRequest parseError app data handlers h) = []"
proof (cases "invalidAppId app data")
  case True
  then show ?thesis by (auto simp: handleRequest_def throwing_def)
next
  case False
  with assms have rest: "(requestType data = ''IntentRequest''
          \<and> (\<exists>rq. requestIntent data = Some rq \<and> lookupIntent app (intentName rq) = None))
     \<or> requestType data \<notin> {''LaunchRequest'', ''IntentRequest'', ''SessionEndedRequest''}"
    by (auto simp: invalidAppId_def)
  obtain data1 attrs h1 where b: "bootstrap data h = (data1, attrs, h1)"
    by (cases "bootstrap data h") auto
  note same = bootstrap_request [OF b]
  from rest show ?thesis
  proof
    assume "requestType data = ''IntentRequest''
          \<and> (\<exists>rq. requestIntent data = Some rq \<and> lookupIntent app (intentName rq) = None)"
    then show ?thesis
      using False b same by (auto simp: handleRequest_def throwing_def)
  next
    assume "requestType data \<notin> {''LaunchRequest'', ''IntentRequest'', ''SessionEndedRequest''}"
    then show ?thesis
      using False b same by (auto simp: handleRequest_def throwing_def)
  qed
qed

section \<open>What the synthesizer writes\<close>

lemma createCardObject_writes:
  "createCardObject c h = (res, h2) \<Longrightarrow>
     (\<forall>r k. cells h2 r k \<noteq> cells h r k \<longrightarrow>
        c = JRef r \<and> k = ''type'' \<and> \<not> truthy (getProp h r ''type'')
        \<and> cells h2 r k = Some (JStr ''Simple''))"
  by (cases c) (auto simp: createCardObject_def setProp_def split: if_splits)

lemma createCardObject_ok:
  "\<not> truthy c \<or> isRef c \<Longrightarrow> \<exists>v h2. createCardObject c h = (Inr v, h2) \<and> truthy v = truthy c"
  by (cases c) (auto simp: createCardObject_def)

text \<open>The store after lines 184--193, and the value of \<^verbatim>\<open>sessionAttributes\<close>.\<close>

lemma createResponse_split:
  assumes "opts \<noteq> JUndefined" "opts \<noteq> JNull"
    and "\<not> truthy (optionsProp h opts ''attrs'') \<or> isRef (optionsProp h opts ''attrs'')"
  shows "createResponse opts slots attrs app h =
     (let h1 = (case optionsProp h opts ''attrs'' of
                  JRef r \<Rightarrow> setProp h r ''previousIntent'' (getProp h attrs ''previousIntent'')
                | _ \<Rightarrow> h);
          sattrs = (case optionsProp h opts ''attrs'' of JRef r \<Rightarrow> JRef r | _ \<Rightarrow> JRef attrs)
      in case createCardObject (optionsProp h opts ''card'') h1 of
           (Inl e, h2) \<Rightarrow> (Inl e, h2)
         | (Inr c, h2) \<Rightarrow>
             (Inr \<lparr>respVersion = (case options app of Some ao \<Rightarrow> version ao | None \<Rightarrow> JStr ''0.0.1''),
                   respAttributes = sattrs,
                   respOutputSpeech = createOutputSpeechObject (optionsProp h opts ''text'') (optionsProp h opts ''ssml''),
                   shouldEndSession = getShouldEndSession h1 opts,
                   reprompt = (if truthy (optionsProp h1 opts ''reprompt'')
                        then Some (createOutputSpeechObject (optionsProp h1 opts ''reprompt'')
                                     (optionsProp h1 opts ''ssml''))
                        else None),
                   respCard = (if truthy c then Some c else None)\<rparr>, h2))"
proof (cases "optionsProp h opts ''attrs''")
  case (JRef r)
  then show ?thesis using assms
    by (simp add: createResponse_def Let_def optionsProp_setProp split: prod.splits sum.splits)
qed (use assms in \<open>simp_all add: createResponse_def Let_def split: prod.splits sum.splits\<close>)

lemma createResponse_fails:
  "opts = JUndefined \<or> opts = JNull
     \<or> (truthy (optionsProp h opts ''attrs'') \<and> \<not> isRef (optionsProp h opts ''attrs'')) \<Longrightarrow>
   createResponse opts slots attrs app h = (Inl TypeError, h)"
  by (auto simp: createResponse_def Let_def)

lemma createResponse_frame:
  assumes "createResponse opts slots attrs app h = (res :: 'e error + response, h')"
  shows "(\<forall>r k. cells h' r k \<noteq> cells h r k \<longrightarrow>
        (optionsProp h opts ''attrs'' = JRef r \<and> k = ''previousIntent''
           \<and> cells h' r k = Some (getProp h attrs ''previousIntent''))
      \<or> (optionsProp h opts ''card'' = JRef r \<and> k = ''type'' \<and> \<not> truthy (getProp h r ''type'')
           \<and> cells h' r k = Some (JStr ''Simple'')))"
proof (cases "opts = JUndefined \<or> opts = JNull
     \<or> (truthy (optionsProp h opts ''attrs'') \<and> \<not> isRef (optionsProp h opts ''attrs''))")
  case True
  show ?thesis using assms by (simp add: createResponse_fails [OF True])
next
  case False
  define h1 where "h1 = (case optionsProp h opts ''attrs'' of
       JRef r \<Rightarrow> setProp h r ''previousIntent'' (getProp h attrs ''previousIntent'') | _ \<Rightarrow> h)"
  have first: "(\<forall>r k. cells h1 r k \<noteq> cells h r k \<longrightarrow>
        optionsProp h opts ''attrs'' = JRef r \<and> k = ''previousIntent''
           \<and> cells h1 r k = Some (getProp h attrs ''previousIntent''))"
    by (auto simp: h1_def setProp_def split: jsval.splits if_splits)
  have type1: "getProp h1 r ''type'' = getProp h r ''type''" for r
    by (simp add: h1_def getProp_setProp split: jsval.splits)
  obtain cres :: "'e error + jsval" and h2
    where c: "createCardObject (optionsProp h opts ''card'') h1 = (cres, h2)"
    by (cases "createCardObject (optionsProp h opts ''card'') h1 :: ('e error + jsval) \<times> heap") auto
  from False have ok: "opts \<noteq> JUndefined" "opts \<noteq> JNull"
    "\<not> truthy (optionsProp h opts ''attrs'') \<or> isRef (optionsProp h opts ''attrs'')"
    by auto
  have "h' = h2"
    using assms c
    by (auto simp: createResponse_split [OF ok] Let_def h1_def [symmetric] split: sum.splits)
  with createCardObject_writes [OF c] have second: "(\<forall>r k. cells h' r k \<noteq> cells h1 r k \<longrightarrow>
        optionsProp h opts ''card'' = JRef r \<and> k = ''type'' \<and> \<not> truthy (getProp h r ''type'')
        \<and> cells h' r k = Some (JStr ''Simple''))"
    by (auto simp: type1)
  show ?thesis
  proof (intro allI impI)
    fix r k assume diff: "cells h' r k \<noteq> cells h r k"
    show "(optionsProp h opts ''attrs'' = JRef r \<and> k = ''previousIntent''
           \<and> cells h' r k = Some (getProp h attrs ''previousIntent''))
      \<or> (optionsProp h opts ''card'' = JRef r \<and> k = ''type'' \<and> \<not> truthy (getProp h r ''type'')
           \<and> cells h' r k = Some (JStr ''Simple''))"
    proof (cases "cells h' r k = cells h1 r k")
      case True
      with diff first show ?thesis by auto
    next
      case False
      with second show ?thesis by auto
    qed
  qed
qed

lemma createResponse_succeeds:
  assumes "opts \<noteq> JUndefined" "opts \<noteq> JNull"
    and "\<not> truthy (optionsProp h opts ''attrs'') \<or> isRef (optionsProp h opts ''attrs'')"
    and "\<not> truthy (optionsProp h opts ''card'') \<or> isRef (optionsProp h opts ''card'')"
  shows "\<exists>resp h'. createResponse opts slots attrs app h = (Inr resp :: 'e error + response, h')"
proof -
  define h1 where "h1 = (case optionsProp h opts ''attrs'' of
       JRef r \<Rightarrow> setProp h r ''previousIntent'' (getProp h attrs ''previousIntent'') | _ \<Rightarrow> h)"
  obtain v h2 where "createCardObject (optionsProp h opts ''card'') h1 = (Inr v :: 'e error + jsval, h2)"
    using createCardObject_ok [OF assms(4)] by blast
  then show ?thesis
    by (simp add: createResponse_split [OF assms(1-3)] Let_def h1_def [symmetric])
qed

lemma createResponse_attributes:
  assumes "createResponse opts slots attrs app h = (Inr resp :: 'e error + response, h')"
  shows "respAttributes resp = (case optionsProp h opts ''attrs'' of JRef r \<Rightarrow> JRef r | _ \<Rightarrow> JRef attrs)"
    and "optionsProp h opts ''attrs'' = JRef r \<Longrightarrow>
           cells h' r ''previousIntent'' = Some (getProp h attrs ''previousIntent'')"
proof -
  have "\<not> (opts = JUndefined \<or> opts = JNull
     \<or> (truthy (optionsProp h opts ''attrs'') \<and> \<not> isRef (optionsProp h opts ''attrs'')))"
  proof
    assume bad: "opts = JUndefined \<or> opts = JNull
     \<or> (truthy (optionsProp h opts ''attrs'') \<and> \<not> isRef (optionsProp h opts ''attrs''))"
    have "createResponse opts slots attrs app h = (Inl TypeError :: 'e error + response, h)"
      by (rule createResponse_fails [OF bad])
    with assms show False by simp
  qed
  then have ok: "opts \<noteq> JUndefined" "opts \<noteq> JNull"
    "\<not> truthy (optionsProp h opts ''attrs'') \<or> isRef (optionsProp h opts ''attrs'')"
    by auto
  define h1 where "h1 = (case optionsProp h opts ''attrs'' of
       JRef r \<Rightarrow> setProp h r ''previousIntent'' (getProp h attrs ''previousIntent'') | _ \<Rightarrow> h)"
  obtain cres :: "'e error + jsval" and h2
    where c: "createCardObject (optionsProp h opts ''card'') h1 = (cres, h2)"
    by (cases "createCardObject (optionsProp h opts ''card'') h1 :: ('e error + jsval) \<times> heap") auto
  have res: "h' = h2 \<and> respAttributes resp
      = (case optionsProp h opts ''attrs'' of JRef r \<Rightarrow> JRef r | _ \<Rightarrow> JRef attrs)"
    using assms c
    by (auto simp: createResponse_split [OF ok] Let_def h1_def [symmetric] split: sum.splits)
  then show "respAttributes resp
      = (case optionsProp h opts ''attrs'' of JRef r \<Rightarrow> JRef r | _ \<Rightarrow> JRef attrs)"
    by simp
  assume a: "optionsProp h opts ''attrs'' = JRef r"
  then have "cells h1 r ''previousIntent'' = Some (getProp h attrs ''previousIntent'')"
    by (simp add: h1_def setProp_def)
  moreover have "cells h2 r ''previousIntent'' = cells h1 r ''previousIntent''"
    using createCardObject_writes [OF c] by auto
  ultimately show "cells h' r ''previousIntent'' = Some (getProp h attrs ''previousIntent'')"
    using res by simp
qed

lemma createResponse_carried_previous:
  assumes "createResponse opts slots attrs app h = (res :: 'e error + response, h')"
  shows "getProp h' attrs ''previousIntent'' = getProp h attrs ''previousIntent''"
proof (cases "cells h' attrs ''previousIntent'' = cells h attrs ''previousIntent''")
  case True
  then show ?thesis by (simp add: getProp_def)
next
  case False
  with createResponse_frame [OF assms]
  have "cells h' attrs ''previousIntent'' = Some (getProp h attrs ''previousIntent'')"
    by auto
  then show ?thesis by (simp add: getProp_def)
qed

text \<open>
  C8. Synthesis is not free of side effects on the objects it receives; what holds
  is a bound on what it writes to them. A property \<open>k\<close> of an object \<open>r\<close> differs after it
  only if \<open>r\<close> is the object supplied as \<^verbatim>\<open>options.attrs\<close> and \<open>k\<close> is \<^verbatim>\<open>previousIntent\<close>,
  now the carried attributes' value, or \<open>r\<close> is the object supplied as
  \<^verbatim>\<open>options.card\<close>, which had no truthy \<^verbatim>\<open>type\<close>, and \<open>k\<close> is \<^verbatim>\<open>type\<close>, now \<^verbatim>\<open>"Simple"\<close>. Every
  other property of every object, of the options object and of the carried
  attributes too, is as it was.
\<close>

theorem synthesis_writes:
  assumes "createResponse opts slots attrs app h = (res :: 'e error + response, h')"
  shows "(\<forall>r k. cells h' r k \<noteq> cells h r k \<longrightarrow>
        (optionsProp h opts ''attrs'' = JRef r \<and> k = ''previousIntent''
           \<and> cells h' r k = Some (getProp h attrs ''previousIntent''))
      \<or> (optionsProp h opts ''card'' = JRef r \<and> k = ''type'' \<and> \<not> truthy (getProp h r ''type'')
           \<and> cells h' r k = Some (JStr ''Simple'')))"
  using createResponse_frame [OF assms] by blast

theorem synthesis_writes_witness:
  "(\<forall>k. cells (snd (createResponse (JRef 1) emptySlots 0 exApp exHeap :: (unit error + response) \<times> heap)) 0 k
            = cells exHeap 0 k)"
proof -
  have "optionsProp exHeap (JRef 1) ''attrs'' \<noteq> JRef 0"
    and "optionsProp exHeap (JRef 1) ''card'' \<noteq> JRef 0"
    by (simp_all add: optionsProp_def getProp_def exHeap_def)
  then show ?thesis
    using synthesis_writes [of "JRef 1" emptySlots 0 exApp exHeap
      "fst (createResponse (JRef 1) emptySlots 0 exApp exHeap :: (unit error + response) \<times> heap)"
      "snd (createResponse (JRef 1) emptySlots 0 exApp exHeap :: (unit error + response) \<times> heap)"]
    by auto
qed

text \<open>
  The synthesizer is not pure: synthesizing from the options object at 1 gives its
  card, the object at 2, a \<^verbatim>\<open>type\<close> it did not have; synthesizing from the options
  object at 4 overwrites the \<^verbatim>\<open>previousIntent\<close> of the attributes object it supplies.
\<close>

theorem synthesis_not_pure:
  "cells exHeap 2 ''type'' = None
   \<and> cells (snd (createResponse (JRef 1) emptySlots 0 exApp exHeap :: (unit error + response) \<times> heap)) 2 ''type''
       = Some (JStr ''Simple'')
   \<and> cells exHeap 3 ''previousIntent'' = Some (JStr ''Forged'')
   \<and> cells (snd (createResponse (JRef 4) emptySlots 0 exApp exHeap :: (unit error + response) \<times> heap)) 3
         ''previousIntent''
       = Some (JStr ''@start'')"
  by (simp add: createResponse_def exApp_def exHeap_def optionsProp_def createCardObject_def
      createOutputSpeechObject_def getShouldEndSession_def optionsTruthy_def getProp_def setProp_def
      Let_def)

text \<open>
  C6. When the options object supplies an attributes object \<open>r\<close> (and its card, if
  any, is an object), a response is synthesized whose \<^verbatim>\<open>sessionAttributes\<close> is that very
  object; its \<^verbatim>\<open>previousIntent\<close> is now the one of the carried attributes, whatever the
  handler had put there, and its other properties are as supplied (\<^verbatim>\<open>type\<close> too,
  unless the same object was also given as the card). When the options value gives
  no attributes (none, or a falsy value), \<^verbatim>\<open>sessionAttributes\<close> is the carried attributes
  object itself, with its contents as they were (unless it was given as the card).
\<close>

theorem response_sessionAttributes:
  assumes "\<not> truthy (optionsProp h opts ''card'') \<or> isRef (optionsProp h opts ''card'')"
  shows "(optionsProp h opts ''attrs'' = JRef r \<longrightarrow>
            (\<exists>resp h'. createResponse opts slots attrs app h = (Inr resp :: 'e error + response, h')
               \<and> respAttributes resp = JRef r
               \<and> cells h' r ''previousIntent'' = Some (getProp h attrs ''previousIntent'')
               \<and> (\<forall>k. k \<noteq> ''previousIntent''
                      \<longrightarrow> (k = ''type'' \<longrightarrow> optionsProp h opts ''card'' \<noteq> JRef r)
                      \<longrightarrow> cells h' r k = cells h r k)))
       \<and> (opts \<noteq> JUndefined \<and> opts \<noteq> JNull \<and> \<not> truthy (optionsProp h opts ''attrs'') \<longrightarrow>
            (\<exists>resp h'. createResponse opts slots attrs app h = (Inr resp :: 'e error + response, h')
               \<and> respAttributes resp = JRef attrs
               \<and> (optionsProp h opts ''card'' \<noteq> JRef attrs \<longrightarrow> cells h' attrs = cells h attrs)))"
proof (intro conjI impI)
  assume a: "optionsProp h opts ''attrs'' = JRef r"
  then have ok: "opts \<noteq> JUndefined" "opts \<noteq> JNull"
    by (auto simp: optionsProp_def)
  from createResponse_succeeds [OF ok _ assms, of slots attrs app] a
  obtain resp h' where c: "createResponse opts slots attrs app h = (Inr resp :: 'e error + response, h')"
    by auto
  have "\<forall>k. k \<noteq> ''previousIntent''
          \<longrightarrow> (k = ''type'' \<longrightarrow> optionsProp h opts ''card'' \<noteq> JRef r)
          \<longrightarrow> cells h' r k = cells h r k"
    using createResponse_frame [OF c] by blast
  with c createResponse_attributes [OF c] a
  show "\<exists>resp h'. createResponse opts slots attrs app h = (Inr resp :: 'e error + response, h')
               \<and> respAttributes resp = JRef r
               \<and> cells h' r ''previousIntent'' = Some (getProp h attrs ''previousIntent'')
               \<and> (\<forall>k. k \<noteq> ''previousIntent''
                      \<longrightarrow> (k = ''type'' \<longrightarrow> optionsProp h opts ''card'' \<noteq> JRef r)
                      \<longrightarrow> cells h' r k = cells h r k)"
    by simp
next
  assume n: "opts \<noteq> JUndefined \<and> opts \<noteq> JNull \<and> \<not> truthy (optionsProp h opts ''attrs'')"
  then have ok: "opts \<noteq> JUndefined" "opts \<noteq> JNull"
    "\<not> truthy (optionsProp h opts ''attrs'') \<or> isRef (optionsProp h opts ''attrs'')"
    by auto
  from createResponse_succeeds [OF ok assms, of slots attrs app]
  obtain resp h' where c: "createResponse opts slots attrs app h = (Inr resp :: 'e error + response, h')"
    by auto
  have notref: "\<And>r. optionsProp h opts ''attrs'' \<noteq> JRef r"
    using n by auto
  have "respAttributes resp = JRef attrs"
    using createResponse_attributes(1) [OF c] n
    by (cases "optionsProp h opts ''attrs''") auto
  moreover have "optionsProp h opts ''card'' \<noteq> JRef attrs \<longrightarrow> cells h' attrs = cells h attrs"
    using createResponse_frame [OF c] notref by (auto simp: fun_eq_iff)
  ultimately show "\<exists>resp h'. createResponse opts slots attrs app h = (Inr resp :: 'e error + response, h')
               \<and> respAttributes resp = JRef attrs
               \<and> (optionsProp h opts ''card'' \<noteq> JRef attrs \<longrightarrow> cells h' attrs = cells h attrs)"
    using c by simp
qed

theorem response_sessionAttributes_witness:
  "(\<exists>resp h'. createResponse (JRef 4) emptySlots 0 exApp exHeap = (Inr resp :: unit error + response, h')
       \<and> respAttributes resp = JRef 3
       \<and> cells h' 3 ''previousIntent'' = Some (JStr ''@start'')
       \<and> cells h' 3 ''score'' = Some (JNum 7))
   \<and> (\<exists>resp h'. createResponse (JStr ''Hello'') emptySlots 0 exApp exHeap
                    = (Inr resp :: unit error + response, h')
       \<and> respAttributes resp = JRef 0
       \<and> cells h' 0 = cells exHeap 0)"
proof -
  have "optionsProp exHeap (JRef 4) ''card'' = JUndefined"
    and "optionsProp exHeap (JRef 4) ''attrs'' = JRef 3"
    and "getProp exHeap 0 ''previousIntent'' = JStr ''@start''"
    and "cells exHeap 3 ''score'' = Some (JNum 7)"
    and "optionsProp exHeap (JStr ''Hello'') ''card'' = JUndefined"
    and "optionsProp exHeap (JStr ''Hello'') ''attrs'' = JUndefined"
    by (simp_all add: optionsProp_def getProp_def exHeap_def)
  then show ?thesis
    using response_sessionAttributes [of exHeap "JRef 4" 3 emptySlots 0 exApp, where ?'e = unit]
      response_sessionAttributes [of exHeap "JStr ''Hello''" 3 emptySlots 0 exApp, where ?'e = unit]
    by fastforce
qed

section \<open>Invoking a handler\<close>

lemma invoked_optionsReady: "invoked (optionsReady slots attrs app opts h) = []"
  by (simp add: optionsReady_def split: prod.splits sum.splits)

lemma invoked_drive: "invoked (drive r slots attrs app) = []"
  by (induction r) (simp_all add: Let_def invoked_optionsReady split: option.splits)

lemma invoked_callHandler: "invoked (callHandler f slots attrs app data h) = [(f, h)]"
  by (simp add: callHandler_def Let_def invoked_optionsReady invoked_drive split: prod.splits)

lemma delivered_callHandler:
  "delivered (callHandler f slots attrs app data h :: 'e outcome) =
     (if arity f < 3
      then delivered (optionsReady (transformSlots h slots) attrs app
             (fst (call3 f (transformSlots h slots) attrs data h))
             (snd (call3 f (transformSlots h slots) attrs data h)) :: 'e outcome)
      else delivered (drive (call4 f (transformSlots h slots) attrs data h) (transformSlots h slots) attrs app
             :: 'e outcome))"
  by (simp add: callHandler_def Let_def split: prod.splits)

lemma optionsReady_delivered:
  assumes "d \<in> set (delivered (optionsReady slots attrs app opts h :: 'e outcome))"
  shows "createResponse opts slots attrs app h = (Inr (fst d) :: 'e error + response, snd d)"
  using assms
  by (cases "createResponse opts slots attrs app h :: ('e error + response) \<times> heap")
     (auto simp: optionsReady_def split: sum.splits)

lemma optionsReady_previous:
  assumes "d \<in> set (delivered (optionsReady slots attrs app opts h :: 'e outcome))"
  shows "responsePrevious d = getProp h attrs ''previousIntent''
     \<and> getProp (snd d) attrs ''previousIntent'' = getProp h attrs ''previousIntent''"
proof -
  have c: "createResponse opts slots attrs app h = (Inr (fst d) :: 'e error + response, snd d)"
    by (rule optionsReady_delivered [OF assms])
  have carried: "getProp (snd d) attrs ''previousIntent'' = getProp h attrs ''previousIntent''"
    by (rule createResponse_carried_previous [OF c])
  have "responsePrevious d = getProp h attrs ''previousIntent''"
  proof (cases "optionsProp h opts ''attrs''")
    case (JRef r)
    with createResponse_attributes [OF c] show ?thesis
      by (simp add: responsePrevious_def getProp_def)
  qed (use createResponse_attributes(1) [OF c] carried in \<open>simp_all add: responsePrevious_def\<close>)
  with carried show ?thesis by simp
qed

lemma drive_previous:
  "d \<in> set (delivered (drive r slots attrs app :: 'e outcome)) \<Longrightarrow>
     responsePrevious d = getProp (snd d) attrs ''previousIntent''"
proof (induction r)
  case (Stop h)
  then show ?case by simp
next
  case (Fire v h k)
  let ?r = "optionsReady slots attrs app v h :: 'e outcome"
  have "d \<in> set (delivered ?r)
        \<or> d \<in> set (delivered (drive (k (heapAfter ?r)) slots attrs app :: 'e outcome))"
    using Fire.prems by (cases "thrown ?r") (simp_all add: Let_def)
  then show ?case
    using optionsReady_previous [of d slots attrs app v h, where ?'e = 'e] Fire.IH by auto
qed

lemma callHandler_previous:
  assumes "d \<in> set (delivered (callHandler f slots attrs app data h :: 'e outcome))"
  shows "responsePrevious d = getProp (snd d) attrs ''previousIntent''"
proof (cases "arity f < 3")
  case True
  with assms optionsReady_previous [of d "transformSlots h slots" attrs app _ _, where ?'e = 'e]
  show ?thesis by (simp add: delivered_callHandler)
next
  case False
  with assms drive_previous [of d _ "transformSlots h slots" attrs app, where ?'e = 'e]
  show ?thesis by (simp add: delivered_callHandler)
qed

lemma callHandler_sync_previous:
  assumes "d \<in> set (delivered (callHandler f slots attrs app data h :: 'e outcome))" "arity f < 3"
  shows "responsePrevious d
     = getProp (snd (call3 f (transformSlots h slots) attrs data h)) attrs ''previousIntent''"
  using assms optionsReady_previous [of d "transformSlots h slots" attrs app _ _, where ?'e = 'e]
  by (simp add: delivered_callHandler)

lemma checkActionsAndHandle_selects:
  "checkActionsAndHandle intent slots attrs app handlers data h =
     (if ownHandlerSelected intent slots attrs app h
      then callHandlerOf (handlerOf intent) slots attrs app data
             (setProp (storeAfterIf intent slots attrs app h) attrs ''previousIntent'' (nameOf intent))
      else callHandler (fallbackHandler intent attrs app handlers h) slots attrs app data
             (storeAfterIf intent slots attrs app h))"
  by (auto simp: checkActionsAndHandle_def ownHandlerSelected_def storeAfterIf_def
      fallbackHandler_def split: option.splits prod.splits)

section \<open>The calling convention\<close>

text \<open>
  C7. A handler declared with fewer than three parameters is called as
  \<^verbatim>\<open>handler(slots, attrs, data)\<close> and what it returns is synthesized at once: the call
  delivers exactly one response unless synthesis throws. A handler declared with
  three or more is called with the callback as a fourth, final argument and what it
  returns is dropped: a response is synthesized for a firing of the callback, from
  the value it is fired with, and none is delivered if the callback never fires.
\<close>

theorem callHandler_arity:
  "(arity f < 3 \<longrightarrow>
      (callHandler f slots attrs app data h :: 'e outcome)
        = (optionsReady (transformSlots h slots) attrs app
             (fst (call3 f (transformSlots h slots) attrs data h))
             (snd (call3 f (transformSlots h slots) attrs data h)))\<lparr>invoked := [(f, h)]\<rparr>
      \<and> length (delivered (callHandler f slots attrs app data h :: 'e outcome))
          = (if thrown (callHandler f slots attrs app data h :: 'e outcome) = None then 1 else 0))
   \<and> (3 \<le> arity f \<longrightarrow>
      (callHandler f slots attrs app data h :: 'e outcome)
        = (drive (call4 f (transformSlots h slots) attrs data h) (transformSlots h slots) attrs app)
            \<lparr>invoked := [(f, h)]\<rparr>
      \<and> (\<forall>h'. call4 f (transformSlots h slots) attrs data h = Stop h' \<longrightarrow>
             delivered (callHandler f slots attrs app data h :: 'e outcome) = []
             \<and> thrown (callHandler f slots attrs app data h :: 'e outcome) = None)
      \<and> (\<forall>v h1 k resp h2. call4 f (transformSlots h slots) attrs data h = Fire v h1 k
             \<and> createResponse v (transformSlots h slots) attrs app h1 = (Inr resp :: 'e error + response, h2) \<longrightarrow>
             (\<exists>rest. delivered (callHandler f slots attrs app data h :: 'e outcome) = (resp, h2) # rest)))"
proof (intro conjI impI allI)
  assume a: "arity f < 3"
  then show "(callHandler f slots attrs app data h :: 'e outcome)
        = (optionsReady (transformSlots h slots) attrs app
             (fst (call3 f (transformSlots h slots) attrs data h))
             (snd (call3 f (transformSlots h slots) attrs data h)))\<lparr>invoked := [(f, h)]\<rparr>"
    by (simp add: callHandler_def Let_def invoked_optionsReady split: prod.splits)
  then show "length (delivered (callHandler f slots attrs app data h :: 'e outcome))
          = (if thrown (callHandler f slots attrs app data h :: 'e outcome) = None then 1 else 0)"
    by (simp add: optionsReady_def split: prod.splits sum.splits)
next
  assume a: "3 \<le> arity f"
  then show eq: "(callHandler f slots attrs app data h :: 'e outcome)
        = (drive (call4 f (transformSlots h slots) attrs data h) (transformSlots h slots) attrs app)
            \<lparr>invoked := [(f, h)]\<rparr>"
    by (simp add: callHandler_def Let_def invoked_drive)
  {
    fix h' assume "call4 f (transformSlots h slots) attrs data h = Stop h'"
    with eq show "delivered (callHandler f slots attrs app data h :: 'e outcome) = []"
      and "thrown (callHandler f slots attrs app data h :: 'e outcome) = None"
      by simp_all
  }
  fix v h1 k resp h2
  assume "call4 f (transformSlots h slots) attrs data h = Fire v h1 k
      \<and> createResponse v (transformSlots h slots) attrs app h1 = (Inr resp :: 'e error + response, h2)"
  with eq show "\<exists>rest. delivered (callHandler f slots attrs app data h :: 'e outcome) = (resp, h2) # rest"
    by (simp add: optionsReady_def Let_def)
qed

theorem callHandler_arity_witness:
  "length (delivered (callHandler (replyWith (JStr ''Hello'')) None 0 exApp exRequest exHeap :: unit outcome)) = 1
   \<and> delivered (callHandler (threeParams (JStr ''Hello'')) None 0 exApp exRequest exHeap :: unit outcome) = []
   \<and> (\<exists>resp h2 rest.
         delivered (callHandler (completeWith (JStr ''Hello'')) None 0 exApp exRequest exHeap :: unit outcome)
           = (resp, h2) # rest
         \<and> respOutputSpeech resp = PlainText (JStr ''Hello''))"
proof -
  let ?resp = "\<lparr>respVersion = JUndefined, respAttributes = JRef 0,
               respOutputSpeech = PlainText (JStr ''Hello''), shouldEndSession = JBool True,
               reprompt = None, respCard = None\<rparr>"
  have c: "createResponse (JStr ''Hello'') (transformSlots exHeap None) 0 exApp exHeap
      = (Inr ?resp :: unit error + response, exHeap)"
    by (simp add: createResponse_def exApp_def optionsProp_def createCardObject_def
        createOutputSpeechObject_def getShouldEndSession_def optionsTruthy_def Let_def)
  have sync: "arity (replyWith (JStr ''Hello'')) < 3"
    and three: "3 \<le> arity (threeParams (JStr ''Hello''))"
    and four: "3 \<le> arity (completeWith (JStr ''Hello''))"
    by (simp_all add: replyWith_def threeParams_def completeWith_def)
  have "thrown (callHandler (replyWith (JStr ''Hello'')) None 0 exApp exRequest exHeap :: unit outcome) = None"
    by (simp add: callHandler_def replyWith_def optionsReady_def c Let_def)
  with callHandler_arity [of "replyWith (JStr ''Hello'')" None 0 exApp exRequest exHeap,
      where ?'e = unit, THEN conjunct1, THEN mp, OF sync, THEN conjunct2]
  have one: "length (delivered (callHandler (replyWith (JStr ''Hello'')) None 0 exApp exRequest exHeap
      :: unit outcome)) = 1"
    by simp
  have stop: "call4 (threeParams (JStr ''Hello'')) (transformSlots exHeap None) 0 exRequest exHeap = Stop exHeap"
    by (simp add: threeParams_def)
  from callHandler_arity [of "threeParams (JStr ''Hello'')" None 0 exApp exRequest exHeap,
      where ?'e = unit, THEN conjunct2, THEN mp, OF three, THEN conjunct2, THEN conjunct1,
      THEN spec, THEN mp, OF stop]
  have none: "delivered (callHandler (threeParams (JStr ''Hello'')) None 0 exApp exRequest exHeap
      :: unit outcome) = []"
    by simp
  have fire: "call4 (completeWith (JStr ''Hello'')) (transformSlots exHeap None) 0 exRequest exHeap
      = Fire (JStr ''Hello'') exHeap Stop"
    by (simp add: completeWith_def)
  from callHandler_arity [of "completeWith (JStr ''Hello'')" None 0 exApp exRequest exHeap,
      where ?'e = unit, THEN conjunct2, THEN mp, OF four, THEN conjunct2, THEN conjunct2] fire c
  have "\<exists>rest. delivered (callHandler (completeWith (JStr ''Hello'')) None 0 exApp exRequest exHeap
      :: unit outcome) = (?resp, exHeap) # rest"
    by blast
  with one none show ?thesis by auto
qed

section \<open>Rejected transitions\<close>

text \<open>
  C4. With a non-empty action list: when the lookup finds an action whose \<^verbatim>\<open>if\<close>
  predicate returns a falsy value, the handler invoked is the action's \<^verbatim>\<open>fail\<close> if it
  has one and \<^verbatim>\<open>handlers.defaultActionFail\<close> otherwise, and it is invoked in the very
  store the predicate left; when the lookup finds nothing, \<^verbatim>\<open>handlers.defaultActionFail\<close>
  is invoked in the store as it was. In neither case does the pipeline write
  \<^verbatim>\<open>attrs.previousIntent\<close> (or anything else) before the handler runs.
\<close>

theorem rejected_transition_fallback:
  assumes "actions app \<noteq> []"
  shows "(\<forall>a p c h1.
            lookupAction (actions app) (getProp h attrs ''previousIntent'') (nameOf intent) = Some a
            \<and> aif a = Some p \<and> p slots attrs h = (c, h1) \<and> \<not> truthy c \<longrightarrow>
              (checkActionsAndHandle intent slots attrs app handlers data h :: 'e outcome)
                = callHandler (case afail a of Some f \<Rightarrow> f | None \<Rightarrow> defaultActionFail handlers)
                    slots attrs app data h1
              \<and> invoked (checkActionsAndHandle intent slots attrs app handlers data h :: 'e outcome)
                = [(case afail a of Some f \<Rightarrow> f | None \<Rightarrow> defaultActionFail handlers, h1)])
       \<and> (lookupAction (actions app) (getProp h attrs ''previousIntent'') (nameOf intent) = None \<longrightarrow>
              (checkActionsAndHandle intent slots attrs app handlers data h :: 'e outcome)
                = callHandler (defaultActionFail handlers) slots attrs app data h
              \<and> invoked (checkActionsAndHandle intent slots attrs app handlers data h :: 'e outcome)
                = [(defaultActionFail handlers, h)])"
  using assms
  by (auto simp: checkActionsAndHandle_def evalIf_def invoked_callHandler split: option.splits)

theorem rejected_transition_fallback_witness:
  "invoked (checkActionsAndHandle (Registered yesIntent) exSlotsOnce 0 exGuardedApp exHandlers exRequest exHeap :: unit outcome)
     = [(replyWith (JStr ''Denied''), exHeap)]
   \<and> invoked (checkActionsAndHandle (Registered yesIntent) exSlotsOnce 3 exGuardedApp exHandlers exRequest exHeap :: unit outcome)
     = [(replyWith (JStr ''Sorry''), exHeap)]"
proof -
  have p0: "getProp exHeap 0 ''previousIntent'' = JStr ''@start''"
    and p3: "getProp exHeap 3 ''previousIntent'' = JStr ''Forged''"
    by (simp_all add: getProp_def exHeap_def)
  have l0: "lookupAction (actions exGuardedApp) (JStr ''@start'') (nameOf (Registered yesIntent))
      = Some \<lparr>afrom = ''@start'', ato = ''Yes'', aif = Some atLeastTwo,
              afail = Some (replyWith (JStr ''Denied''))\<rparr>"
    and l3: "lookupAction (actions exGuardedApp) (JStr ''Forged'') (nameOf (Registered yesIntent)) = None"
    and ne: "actions exGuardedApp \<noteq> []"
    by (simp_all add: lookupAction_def findAction_def matchesAction_def exGuardedApp_def yesIntent_def)
  have f: "atLeastTwo exSlotsOnce 0 exHeap = (JBool False, exHeap)"
    by (simp add: atLeastTwo_def exSlotsOnce_def)
  show ?thesis
    using rejected_transition_fallback [OF ne, of exHeap 0 "Registered yesIntent" exSlotsOnce exHandlers exRequest,
        where ?'e = unit]
      rejected_transition_fallback [OF ne, of exHeap 3 "Registered yesIntent" exSlotsOnce exHandlers exRequest,
        where ?'e = unit]
      p0 p3 l0 l3 f
    by (simp add: exHandlers_def invoked_callHandler)
qed

section \<open>Handlers that answer once\<close>

lemma replyWith_delivers:
  "length (delivered (callHandler (replyWith (JStr s)) slots attrs app data h :: 'e outcome)) = 1"
proof -
  have "\<exists>resp h'. createResponse (JStr s) (transformSlots h slots) attrs app h
      = (Inr resp :: 'e error + response, h')"
    by (rule createResponse_succeeds) (simp_all add: optionsProp_def)
  then show ?thesis
    by (auto simp: delivered_callHandler replyWith_def optionsReady_def)
qed

lemma map_single_value:
  "length xs = 1 \<Longrightarrow> \<forall>x \<in> set xs. g x = c \<Longrightarrow> map g xs = [c]"
  by (cases xs) auto

section \<open>Dispatch\<close>

lemma handleRequest_dispatch:
  assumes "\<not> invalidAppId app data" and "bootstrap data h = (data1, attrs, h1)"
  shows "requestType data = ''LaunchRequest'' \<Longrightarrow>
           handleRequest parseError app data handlers h
             = callHandler (onStart handlers) None attrs app data1 h1"
    and "requestType data = ''SessionEndedRequest'' \<Longrightarrow>
           handleRequest parseError app data handlers h
             = callHandler (onEnd handlers) None attrs app data1 h1"
    and "requestType data = ''IntentRequest'' \<Longrightarrow> requestIntent data = Some rq \<Longrightarrow>
           lookupIntent app (intentName rq) = Some intent \<Longrightarrow>
           handleRequest parseError app data handlers h
             = checkActionsAndHandle intent (intentSlots rq) attrs app handlers data1 h1"
  using assms bootstrap_request [OF assms(2)]
  by (simp_all add: handleRequest_def)

lemma lookupIntent_registered:
  "intents app k = Some intent \<Longrightarrow> lookupIntent app k = Some (Registered intent)"
  by (simp add: lookupIntent_def)

lemma bootstrap_previous:
  "bootstrap data h = (data1, attrs, h1) \<Longrightarrow>
     getProp h1 attrs ''previousIntent''
       = (if sessionNew data then JStr ''@start''
          else (case sessionAttributes data of
                  None \<Rightarrow> JUndefined
                | Some r \<Rightarrow> getProp h r ''previousIntent''))"
  by (auto simp: bootstrap_def alloc_def getProp_def split: if_splits option.splits)

text \<open>
  Whatever the request, the dispatcher either throws before any handler is called or
  is one call of \<open>callHandler\<close>, on the request's slots and the bootstrapped attributes.
\<close>

lemma checkActionsAndHandle_shape:
  "(\<exists>e hx. (checkActionsAndHandle intent slots attrs app handlers data h :: 'e outcome) = throwing e hx)
   \<or> (\<exists>g hx. (checkActionsAndHandle intent slots attrs app handlers data h :: 'e outcome)
                = callHandler g slots attrs app data hx)"
  by (cases "handlerOf intent")
     (auto simp: checkActionsAndHandle_selects callHandlerOf_def)

lemma handleRequest_shape:
  assumes "\<not> invalidAppId app data" and "bootstrap data h = (data1, attrs, h1)"
  shows "(\<exists>e hx. (handleRequest parseError app data handlers h :: 'e outcome) = throwing e hx)
   \<or> (\<exists>g hx. (handleRequest parseError app data handlers h :: 'e outcome)
                = callHandler g (dispatchedSlots data) attrs app data1 hx)"
proof -
  note same = bootstrap_request [OF assms(2)]
  consider (launch) "requestType data = ''LaunchRequest''"
    | (ended) "requestType data = ''SessionEndedRequest''"
    | (intent) "requestType data = ''IntentRequest''"
    | (other) "requestType data \<notin> {''LaunchRequest'', ''IntentRequest'', ''SessionEndedRequest''}"
    by auto
  then show ?thesis
  proof cases
    case launch
    have "(handleRequest parseError app data handlers h :: 'e outcome)
        = callHandler (onStart handlers) None attrs app data1 h1"
      by (rule handleRequest_dispatch(1) [OF assms launch])
    with launch show ?thesis by (auto simp: dispatchedSlots_def)
  next
    case ended
    have "(handleRequest parseError app data handlers h :: 'e outcome)
        = callHandler (onEnd handlers) None attrs app data1 h1"
      by (rule handleRequest_dispatch(2) [OF assms ended])
    with ended show ?thesis by (auto simp: dispatchedSlots_def)
  next
    case other
    then show ?thesis
      using assms same by (auto simp: handleRequest_def)
  next
    case intent
    show ?thesis
    proof (cases "requestIntent data")
      case None
      then show ?thesis using assms same intent by (auto simp: handleRequest_def)
    next
      case (Some rq)
      show ?thesis
      proof (cases "lookupIntent app (intentName rq)")
        case None
        then show ?thesis using assms same intent Some by (auto simp: handleRequest_def)
      next
        case (Some iv)
        have d: "dispatchedSlots data = intentSlots rq"
          using intent \<open>requestIntent data = Some rq\<close> by (simp add: dispatchedSlots_def)
        have "(handleRequest parseError app data handlers h :: 'e outcome)
            = checkActionsAndHandle iv (intentSlots rq) attrs app handlers data1 h1"
          by (rule handleRequest_dispatch(3) [OF assms intent \<open>requestIntent data = Some rq\<close> Some])
        then show ?thesis
          using checkActionsAndHandle_shape [of iv "intentSlots rq" attrs app handlers data1 h1,
              where ?'e = 'e]
          by (simp add: d)
      qed
    qed
  qed
qed

section \<open>The previous intent\<close>

lemma optionsReady_heapAfter:
  "thrown (optionsReady s attrs app v h :: 'e outcome) = None \<Longrightarrow>
     getProp (heapAfter (optionsReady s attrs app v h :: 'e outcome)) attrs ''previousIntent''
       = getProp h attrs ''previousIntent''"
  using createResponse_carried_previous [of v s attrs app h, where ?'e = 'e]
  by (cases "createResponse v s attrs app h :: ('e error + response) \<times> heap")
     (auto simp: optionsReady_def split: sum.splits)

lemma drive_keeps:
  "keepsPrevious attrs v r \<Longrightarrow> d \<in> set (delivered (drive r s attrs app :: 'e outcome)) \<Longrightarrow>
     responsePrevious d = v"
proof (induction r)
  case (Stop h)
  then show ?case by simp
next
  case (Fire x h k)
  let ?r = "optionsReady s attrs app x h :: 'e outcome"
  from Fire.prems(1) have here: "getProp h attrs ''previousIntent'' = v"
    and later: "\<And>h'. getProp h' attrs ''previousIntent'' = v \<Longrightarrow> keepsPrevious attrs v (k h')"
    by simp_all
  show ?case
  proof (cases "thrown ?r")
    case (Some e)
    with Fire.prems(2) have "d \<in> set (delivered ?r)" by (simp add: Let_def)
    with optionsReady_previous [of d s attrs app x h, where ?'e = 'e] here show ?thesis by simp
  next
    case None
    with Fire.prems(2) have "d \<in> set (delivered ?r)
        \<or> d \<in> set (delivered (drive (k (heapAfter ?r)) s attrs app :: 'e outcome))"
      by (simp add: Let_def)
    then show ?thesis
    proof
      assume "d \<in> set (delivered ?r)"
      with optionsReady_previous [of d s attrs app x h, where ?'e = 'e] here show ?thesis by simp
    next
      assume rest: "d \<in> set (delivered (drive (k (heapAfter ?r)) s attrs app :: 'e outcome))"
      have "getProp (heapAfter ?r) attrs ''previousIntent'' = v"
        using optionsReady_heapAfter [OF None] here by simp
      then have "keepsPrevious attrs v (k (heapAfter ?r))" by (rule later)
      with Fire.IH rest show ?thesis by blast
    qed
  qed
qed

lemma callHandler_keeps:
  assumes "handlerKeeps f (transformSlots h slots) attrs data h"
    and "d \<in> set (delivered (callHandler f slots attrs app data h :: 'e outcome))"
  shows "responsePrevious d = getProp h attrs ''previousIntent''"
proof (cases "arity f < 3")
  case True
  with assms callHandler_sync_previous [of d f slots attrs app data h, where ?'e = 'e]
  show ?thesis by (simp add: handlerKeeps_def)
next
  case False
  with assms drive_keeps [of attrs "getProp h attrs ''previousIntent''" _ d "transformSlots h slots" app,
      where ?'e = 'e]
  show ?thesis by (simp add: handlerKeeps_def delivered_callHandler)
qed

lemma handleRequest_invoked:
  assumes "\<not> invalidAppId app data" and "bootstrap data h = (data1, attrs, h1)"
    and "invoked (handleRequest parseError app data handlers h :: 'e outcome) = [(f, hi)]"
  shows "(handleRequest parseError app data handlers h :: 'e outcome)
      = callHandler f (dispatchedSlots data) attrs app data1 hi"
  using handleRequest_shape [OF assms(1,2), of parseError handlers] assms(3)
  by (auto simp: throwing_def invoked_callHandler)

lemma completeWith_delivers:
  "length (delivered (callHandler (completeWith (JStr s)) slots attrs app data h :: 'e outcome)) = 1"
proof -
  have "\<exists>resp h'. createResponse (JStr s) (transformSlots h slots) attrs app h
      = (Inr resp :: 'e error + response, h')"
    by (rule createResponse_succeeds) (simp_all add: optionsProp_def)
  then show ?thesis
    by (auto simp: delivered_callHandler completeWith_def optionsReady_def Let_def)
qed

lemma replyWith_keeps: "handlerKeeps (replyWith v) s attrs data h"
  by (simp add: handlerKeeps_def replyWith_def)

lemma completeWith_keeps: "handlerKeeps (completeWith v) s attrs data h"
  by (simp add: handlerKeeps_def completeWith_def)

text \<open>
  C1. The \<^verbatim>\<open>previousIntent\<close> of a response's session attributes is that of the last
  intent whose handler ran, or \<^verbatim>\<open>"@start"\<close> in a new session, never that of an intent the
  policy rejected. For every request that passes the application id check, with
  \<open>attrs\<close> and \<open>h1\<close> the attributes and the store after the bootstrap:
  \<^item> \<^verbatim>\<open>attrs.previousIntent\<close> is \<^verbatim>\<open>"@start"\<close> when the session is new, and what the request
    carried otherwise;
  \<^item> a launch or the end of a session invokes its handler in the store \<open>h1\<close>: nothing
    is written;
  \<^item> for a registered intent, when its own handler is selected (no actions, or a
    matching action whose predicate holds), that handler is the one invoked, with
    \<^verbatim>\<open>attrs.previousIntent\<close> set to the intent's name and nothing else written; when a
    fallback is selected, the fallback is the one invoked, in the store the predicate
    left: nothing is written;
  \<^item> every response passed to \<^verbatim>\<open>done\<close> has, as its \<^verbatim>\<open>sessionAttributes.previousIntent\<close>,
    the \<^verbatim>\<open>previousIntent\<close> of \<open>attrs\<close> at that moment;
  \<^item> so, when the handler invoked, called in either convention, leaves
    \<^verbatim>\<open>attrs.previousIntent\<close> alone, every response has the \<^verbatim>\<open>previousIntent\<close> the handler
    was invoked with: the intent's name after its own handler, the earlier value
    after a fallback, a launch or an end.
\<close>

theorem previousIntent_reflects_last_handler:
  assumes "\<not> invalidAppId app data" and "bootstrap data h = (data1, attrs, h1)"
  shows "getProp h1 attrs ''previousIntent''
       = (if sessionNew data then JStr ''@start''
          else (case sessionAttributes data of
                  None \<Rightarrow> JUndefined
                | Some r \<Rightarrow> getProp h r ''previousIntent''))
   \<and> (requestType data = ''LaunchRequest'' \<longrightarrow>
        invoked (handleRequest parseError app data handlers h :: 'e outcome) = [(onStart handlers, h1)])
   \<and> (requestType data = ''SessionEndedRequest'' \<longrightarrow>
        invoked (handleRequest parseError app data handlers h :: 'e outcome) = [(onEnd handlers, h1)])
   \<and> (\<forall>rq intent.
        requestType data = ''IntentRequest'' \<and> requestIntent data = Some rq
        \<and> intents app (intentName rq) = Some intent \<longrightarrow>
          (if ownHandlerSelected (Registered intent) (intentSlots rq) attrs app h1
           then invoked (handleRequest parseError app data handlers h :: 'e outcome)
                  = [(handler intent,
                      setProp (storeAfterIf (Registered intent) (intentSlots rq) attrs app h1) attrs
                        ''previousIntent'' (JStr (name intent)))]
                \<and> getProp (setProp (storeAfterIf (Registered intent) (intentSlots rq) attrs app h1) attrs
                        ''previousIntent'' (JStr (name intent))) attrs ''previousIntent''
                  = JStr (name intent)
           else invoked (handleRequest parseError app data handlers h :: 'e outcome)
                  = [(fallbackHandler (Registered intent) attrs app handlers h1,
                      storeAfterIf (Registered intent) (intentSlots rq) attrs app h1)]))
   \<and> (\<forall>d \<in> set (delivered (handleRequest parseError app data handlers h :: 'e outcome)).
        responsePrevious d = getProp (snd d) attrs ''previousIntent'')
   \<and> (\<forall>f hi.
        invoked (handleRequest parseError app data handlers h :: 'e outcome) = [(f, hi)]
        \<and> handlerKeeps f (transformSlots hi (dispatchedSlots data)) attrs data1 hi \<longrightarrow>
          (\<forall>d \<in> set (delivered (handleRequest parseError app data handlers h :: 'e outcome)).
             responsePrevious d = getProp hi attrs ''previousIntent''))"
proof (intro conjI impI allI ballI)
  show "getProp h1 attrs ''previousIntent''
       = (if sessionNew data then JStr ''@start''
          else (case sessionAttributes data of
                  None \<Rightarrow> JUndefined
                | Some r \<Rightarrow> getProp h r ''previousIntent''))"
    by (rule bootstrap_previous [OF assms(2)])
next
  assume t: "requestType data = ''LaunchRequest''"
  have "(handleRequest parseError app data handlers h :: 'e outcome)
      = callHandler (onStart handlers) None attrs app data1 h1"
    by (rule handleRequest_dispatch(1) [OF assms t])
  then show "invoked (handleRequest parseError app data handlers h :: 'e outcome) = [(onStart handlers, h1)]"
    by (simp add: invoked_callHandler)
next
  assume t: "requestType data = ''SessionEndedRequest''"
  have "(handleRequest parseError app data handlers h :: 'e outcome)
      = callHandler (onEnd handlers) None attrs app data1 h1"
    by (rule handleRequest_dispatch(2) [OF assms t])
  then show "invoked (handleRequest parseError app data handlers h :: 'e outcome) = [(onEnd handlers, h1)]"
    by (simp add: invoked_callHandler)
next
  fix rq intent
  assume a: "requestType data = ''IntentRequest'' \<and> requestIntent data = Some rq
        \<and> intents app (intentName rq) = Some intent"
  then have l: "lookupIntent app (intentName rq) = Some (Registered intent)"
    by (simp add: lookupIntent_registered)
  have "(handleRequest parseError app data handlers h :: 'e outcome)
      = checkActionsAndHandle (Registered intent) (intentSlots rq) attrs app handlers data1 h1"
    using a by (intro handleRequest_dispatch(3) [OF assms _ _ l]) simp_all
  then show "if ownHandlerSelected (Registered intent) (intentSlots rq) attrs app h1
           then invoked (handleRequest parseError app data handlers h :: 'e outcome)
                  = [(handler intent,
                      setProp (storeAfterIf (Registered intent) (intentSlots rq) attrs app h1) attrs
                        ''previousIntent'' (JStr (name intent)))]
                \<and> getProp (setProp (storeAfterIf (Registered intent) (intentSlots rq) attrs app h1) attrs
                        ''previousIntent'' (JStr (name intent))) attrs ''previousIntent''
                  = JStr (name intent)
           else invoked (handleRequest parseError app data handlers h :: 'e outcome)
                  = [(fallbackHandler (Registered intent) attrs app handlers h1,
                      storeAfterIf (Registered intent) (intentSlots rq) attrs app h1)]"
    by (simp add: checkActionsAndHandle_selects callHandlerOf_def invoked_callHandler getProp_setProp)
next
  fix d
  assume d: "d \<in> set (delivered (handleRequest parseError app data handlers h :: 'e outcome))"
  from handleRequest_shape [OF assms, of parseError handlers] d
  show "responsePrevious d = getProp (snd d) attrs ''previousIntent''"
    using callHandler_previous [of d _ "dispatchedSlots data" attrs app data1, where ?'e = 'e]
    by (auto simp: throwing_def)
next
  fix f hi d
  assume k: "invoked (handleRequest parseError app data handlers h :: 'e outcome) = [(f, hi)]
        \<and> handlerKeeps f (transformSlots hi (dispatchedSlots data)) attrs data1 hi"
    and d: "d \<in> set (delivered (handleRequest parseError app data handlers h :: 'e outcome))"
  from handleRequest_shape [OF assms, of parseError handlers] d
  obtain g hx where eq: "(handleRequest parseError app data handlers h :: 'e outcome)
      = callHandler g (dispatchedSlots data) attrs app data1 hx"
    by (auto simp: throwing_def)
  with k have "g = f" "hx = hi" by (simp_all add: invoked_callHandler)
  with eq k d show "responsePrevious d = getProp hi attrs ''previousIntent''"
    using callHandler_keeps [of f hi "dispatchedSlots data" attrs data1 d app, where ?'e = 'e]
    by simp
qed

theorem previousIntent_reflects_last_handler_witness:
  "map responsePrevious (delivered (handleRequest (\<lambda>m. m) exGuardedApp exRequest exHandlers exHeap))
     = [JStr ''@start'']
   \<and> map responsePrevious (delivered (handleRequest (\<lambda>m. m) exGuardedApp exTwiceRequest exHandlers exHeap))
     = [JStr ''Yes'']
   \<and> map responsePrevious (delivered (handleRequest (\<lambda>m. m) exCallbackApp exRequest exHandlers exHeap))
     = [JStr ''Yes'']
   \<and> map responsePrevious (delivered (handleRequest (\<lambda>m. m) exGuardedApp exLaunchRequest exHandlers exHeap))
     = [JStr ''@start'']"
proof -
  let ?a = "\<lparr>afrom = ''@start'', ato = ''Yes'', aif = Some atLeastTwo,
              afail = Some (replyWith (JStr ''Denied''))\<rparr>"
  have valid: "\<not> invalidAppId exGuardedApp d" "\<not> invalidAppId exCallbackApp d" for d
    by (simp_all add: invalidAppId_def exGuardedApp_def exCallbackApp_def)
  have l: "lookupAction (actions exGuardedApp) (JStr ''@start'') (JStr ''Yes'') = Some ?a"
    and ne: "actions exGuardedApp \<noteq> []"
    by (simp_all add: lookupAction_def findAction_def matchesAction_def exGuardedApp_def)
  have y: "intents exGuardedApp ''Yes'' = Some yesIntent" "name yesIntent = ''Yes''"
    "handler yesIntent = replyWith (JStr ''Hello'')"
    by (simp_all add: exGuardedApp_def yesIntent_def)

  have q1: "requestType exRequest = ''IntentRequest''" "sessionNew exRequest"
    "requestIntent exRequest = Some \<lparr>intentName = ''Yes'', intentSlots = None\<rparr>"
    by (simp_all add: exRequest_def)
  have q2: "requestType exTwiceRequest = ''IntentRequest''" "sessionNew exTwiceRequest"
    "requestIntent exTwiceRequest = Some \<lparr>intentName = ''Yes'', intentSlots = exSlotsTwice\<rparr>"
    by (simp_all add: exTwiceRequest_def exRequest_def)
  have q4: "requestType exLaunchRequest = ''LaunchRequest''" "sessionNew exLaunchRequest"
    by (simp_all add: exLaunchRequest_def exRequest_def)
  have y3: "intents exCallbackApp ''Yes''
      = Some \<lparr>name = ''Yes'', handler = completeWith (JStr ''Hello'')\<rparr>"
    by (simp add: exCallbackApp_def)

  \<comment> \<open>a rejected intent in a new session\<close>
  obtain d1 h1 where b1: "bootstrap exRequest exHeap = (d1, 5, h1)"
    by (simp add: bootstrap_def alloc_def exRequest_def exHeap_def)
  note t1 = previousIntent_reflects_last_handler [OF valid(1) b1, of "\<lambda>m. m" exHandlers]
  have s1: "getProp h1 5 ''previousIntent'' = JStr ''@start''"
    using t1 [THEN conjunct1] by (simp add: q1)
  have r1: "\<not> ownHandlerSelected (Registered yesIntent) None 5 exGuardedApp h1"
    and st1: "storeAfterIf (Registered yesIntent) None 5 exGuardedApp h1 = h1"
    and fb1: "fallbackHandler (Registered yesIntent) 5 exGuardedApp exHandlers h1 = replyWith (JStr ''Denied'')"
    using ne by (simp_all add: ownHandlerSelected_def storeAfterIf_def fallbackHandler_def s1 y l
        evalIf_def atLeastTwo_def)
  have i1: "invoked (handleRequest (\<lambda>m. m) exGuardedApp exRequest exHandlers exHeap)
      = [(replyWith (JStr ''Denied''), h1)]"
    using t1 [THEN conjunct2, THEN conjunct2, THEN conjunct2, THEN conjunct1, THEN spec, THEN spec,
        of "\<lparr>intentName = ''Yes'', intentSlots = None\<rparr>" yesIntent] r1
    by (simp add: q1 y st1 fb1)
  have p1: "\<forall>d \<in> set (delivered (handleRequest (\<lambda>m. m) exGuardedApp exRequest exHandlers exHeap)).
      responsePrevious d = JStr ''@start''"
    using t1 [THEN conjunct2, THEN conjunct2, THEN conjunct2, THEN conjunct2, THEN conjunct2,
        THEN spec, THEN spec, THEN mp, OF conjI [OF i1 replyWith_keeps]]
    by (simp add: s1)
  have n1: "length (delivered (handleRequest (\<lambda>m. m) exGuardedApp exRequest exHandlers exHeap)) = 1"
    by (simp add: handleRequest_invoked [OF valid(1) b1 i1] replyWith_delivers)

  \<comment> \<open>an accepted intent in a new session\<close>
  obtain d2 h2 where b2: "bootstrap exTwiceRequest exHeap = (d2, 5, h2)"
    by (simp add: bootstrap_def alloc_def exTwiceRequest_def exRequest_def exHeap_def)
  note t2 = previousIntent_reflects_last_handler [OF valid(1) b2, of "\<lambda>m. m" exHandlers]
  have s2: "getProp h2 5 ''previousIntent'' = JStr ''@start''"
    using t2 [THEN conjunct1] by (simp add: q2)
  have o2: "ownHandlerSelected (Registered yesIntent) exSlotsTwice 5 exGuardedApp h2"
    and st2: "storeAfterIf (Registered yesIntent) exSlotsTwice 5 exGuardedApp h2 = h2"
    using ne by (simp_all add: ownHandlerSelected_def storeAfterIf_def s2 y l
        evalIf_def atLeastTwo_def exSlotsTwice_def)
  have i2: "invoked (handleRequest (\<lambda>m. m) exGuardedApp exTwiceRequest exHandlers exHeap)
      = [(replyWith (JStr ''Hello''), setProp h2 5 ''previousIntent'' (JStr ''Yes''))]"
    using t2 [THEN conjunct2, THEN conjunct2, THEN conjunct2, THEN conjunct1, THEN spec, THEN spec,
        of "\<lparr>intentName = ''Yes'', intentSlots = exSlotsTwice\<rparr>" yesIntent] o2
    by (simp add: q2 y st2)
  have p2: "\<forall>d \<in> set (delivered (handleRequest (\<lambda>m. m) exGuardedApp exTwiceRequest exHandlers exHeap)).
      responsePrevious d = JStr ''Yes''"
    using t2 [THEN conjunct2, THEN conjunct2, THEN conjunct2, THEN conjunct2, THEN conjunct2,
        THEN spec, THEN spec, THEN mp, OF conjI [OF i2 replyWith_keeps]]
    by (simp add: getProp_setProp)
  have n2: "length (delivered (handleRequest (\<lambda>m. m) exGuardedApp exTwiceRequest exHandlers exHeap)) = 1"
    by (simp add: handleRequest_invoked [OF valid(1) b2 i2] replyWith_delivers)

  \<comment> \<open>a handler that answers through the callback, no policy\<close>
  let ?yes = "\<lparr>name = ''Yes'', handler = completeWith (JStr ''Hello'')\<rparr>"
  obtain d3 h3 where b3: "bootstrap exRequest exHeap = (d3, 5, h3)"
    by (simp add: bootstrap_def alloc_def exRequest_def exHeap_def)
  note t3 = previousIntent_reflects_last_handler [OF valid(2) b3, of "\<lambda>m. m" exHandlers]
  have o3: "ownHandlerSelected (Registered ?yes) None 5 exCallbackApp h3"
    and st3: "storeAfterIf (Registered ?yes) None 5 exCallbackApp h3 = h3"
    by (simp_all add: ownHandlerSelected_def storeAfterIf_def exCallbackApp_def)
  have i3: "invoked (handleRequest (\<lambda>m. m) exCallbackApp exRequest exHandlers exHeap)
      = [(completeWith (JStr ''Hello''), setProp h3 5 ''previousIntent'' (JStr ''Yes''))]"
    using t3 [THEN conjunct2, THEN conjunct2, THEN conjunct2, THEN conjunct1, THEN spec, THEN spec,
        of "\<lparr>intentName = ''Yes'', intentSlots = None\<rparr>" ?yes] o3
    by (simp add: q1 y3 st3)
  have p3: "\<forall>d \<in> set (delivered (handleRequest (\<lambda>m. m) exCallbackApp exRequest exHandlers exHeap)).
      responsePrevious d = JStr ''Yes''"
    using t3 [THEN conjunct2, THEN conjunct2, THEN conjunct2, THEN conjunct2, THEN conjunct2,
        THEN spec, THEN spec, THEN mp, OF conjI [OF i3 completeWith_keeps]]
    by (simp add: getProp_setProp)
  have n3: "length (delivered (handleRequest (\<lambda>m. m) exCallbackApp exRequest exHandlers exHeap)) = 1"
    by (simp add: handleRequest_invoked [OF valid(2) b3 i3] completeWith_delivers)

  \<comment> \<open>the launch of a new session\<close>
  obtain d4 h4 where b4: "bootstrap exLaunchRequest exHeap = (d4, 5, h4)"
    by (simp add: bootstrap_def alloc_def exLaunchRequest_def exRequest_def exHeap_def)
  note t4 = previousIntent_reflects_last_handler [OF valid(1) b4, of "\<lambda>m. m" exHandlers]
  have s4: "getProp h4 5 ''previousIntent'' = JStr ''@start''"
    using t4 [THEN conjunct1] by (simp add: q4)
  have i4: "invoked (handleRequest (\<lambda>m. m) exGuardedApp exLaunchRequest exHandlers exHeap)
      = [(replyWith (JStr ''Welcome''), h4)]"
    using t4 [THEN conjunct2, THEN conjunct1]
    by (simp add: q4 exHandlers_def)
  have p4: "\<forall>d \<in> set (delivered (handleRequest (\<lambda>m. m) exGuardedApp exLaunchRequest exHandlers exHeap)).
      responsePrevious d = JStr ''@start''"
    using t4 [THEN conjunct2, THEN conjunct2, THEN conjunct2, THEN conjunct2, THEN conjunct2,
        THEN spec, THEN spec, THEN mp, OF conjI [OF i4 replyWith_keeps]]
    by (simp add: s4)
  have n4: "length (delivered (handleRequest (\<lambda>m. m) exGuardedApp exLaunchRequest exHandlers exHeap)) = 1"
    by (simp add: handleRequest_invoked [OF valid(1) b4 i4] replyWith_delivers)

  from map_single_value [OF n1 p1] map_single_value [OF n2 p2] map_single_value [OF n3 p3]
    map_single_value [OF n4 p4]
  show ?thesis by simp
qed

section \<open>Two views of the slots\<close>








lemma assignSlot_proto:
  "assignSlot h emptySlots \<lparr>slotName = ''__proto__'', slotValue = JStr t\<rparr> = emptySlots"
  "assignSlot h emptySlots \<lparr>slotName = ''__proto__'', slotValue = JRef r\<rparr>
     = emptySlots\<lparr>proto := ObjectAt r\<rparr>"
  by (simp_all add: assignSlot_def inheritsProtoAccessor_def emptySlots_def)



section \<open>An intent name that the object inherits\<close>

lemma replyWith_thrown:
  "thrown (callHandler (replyWith (JStr s)) slots attrs app data h :: 'e outcome) = None"
proof -
  have "\<exists>resp h'. createResponse (JStr s) (transformSlots h slots) attrs app h
      = (Inr resp :: 'e error + response, h')"
    by (rule createResponse_succeeds) (simp_all add: optionsProp_def)
  then show ?thesis
    by (auto simp: callHandler_def replyWith_def optionsReady_def Let_def)
qed

text \<open>
  C3. An \<^verbatim>\<open>IntentRequest\<close> naming an intent that \<^verbatim>\<open>app.intents\<close> does not have is meant to
  make the dispatcher throw the error for a nonexistent intent, with no handler
  invoked and \<^verbatim>\<open>done\<close> never called. For the name \<^verbatim>\<open>constructor\<close>, which no application
  here registers, line 44 finds the inherited member and line 47 lets it through.
  Without actions, \<^verbatim>\<open>attrs.previousIntent\<close> is overwritten with \<^verbatim>\<open>"Object"\<close> and a
  \<^verbatim>\<open>TypeError\<close> is thrown, not the error of \<^verbatim>\<open>parseError\<close>; with actions, none of which
  matches, \<^verbatim>\<open>handlers.defaultActionFail\<close> is invoked and a response is passed to \<^verbatim>\<open>done\<close>.
\<close>

theorem inherited_name_is_not_rejected:
  "intents exApp ''constructor'' = None
   \<and> thrown (handleRequest (\<lambda>m. m) exApp exInheritedRequest exHandlers exHeap) = Some TypeError
   \<and> getProp (heapAfter (handleRequest (\<lambda>m. m) exApp exInheritedRequest exHandlers exHeap)) 5
        ''previousIntent'' = JStr ''Object''
   \<and> intents exGuardedApp ''constructor'' = None
   \<and> thrown (handleRequest (\<lambda>m. m) exGuardedApp exInheritedRequest exHandlers exHeap) = None
   \<and> map fst (invoked (handleRequest (\<lambda>m. m) exGuardedApp exInheritedRequest exHandlers exHeap))
        = [replyWith (JStr ''Sorry'')]
   \<and> length (delivered (handleRequest (\<lambda>m. m) exGuardedApp exInheritedRequest exHandlers exHeap)) = 1"
proof -
  have q: "requestType exInheritedRequest = ''IntentRequest''"
    "requestIntent exInheritedRequest = Some \<lparr>intentName = ''constructor'', intentSlots = None\<rparr>"
    by (simp_all add: exInheritedRequest_def exRequest_def)
  obtain d1 h1 where b: "bootstrap exInheritedRequest exHeap = (d1, 5, h1)"
    by (simp add: bootstrap_def alloc_def exInheritedRequest_def exRequest_def exHeap_def)
  have s: "getProp h1 5 ''previousIntent'' = JStr ''@start''"
    using bootstrap_previous [OF b] by (simp add: exInheritedRequest_def exRequest_def)
  have valid: "\<not> invalidAppId exApp exInheritedRequest" "\<not> invalidAppId exGuardedApp exInheritedRequest"
    by (simp_all add: invalidAppId_def exApp_def exGuardedApp_def exInheritedRequest_def exRequest_def)
  have none: "intents exApp ''constructor'' = None" "intents exGuardedApp ''constructor'' = None"
    by (simp_all add: exApp_def exGuardedApp_def)
  then have l: "lookupIntent exApp (intentName \<lparr>intentName = ''constructor'', intentSlots = None\<rparr>)
        = Some (Inherited (JStr ''Object''))"
      "lookupIntent exGuardedApp (intentName \<lparr>intentName = ''constructor'', intentSlots = None\<rparr>)
        = Some (Inherited (JStr ''Object''))"
    by (simp_all add: lookupIntent_def inheritedName_def)
  have "handleRequest (\<lambda>m. m) exApp exInheritedRequest exHandlers exHeap
      = checkActionsAndHandle (Inherited (JStr ''Object'')) None 5 exApp exHandlers d1 h1"
    using handleRequest_dispatch(3) [OF valid(1) b q l(1), of "\<lambda>m. m" exHandlers] by simp
  also have "\<dots> = throwing TypeError (setProp h1 5 ''previousIntent'' (JStr ''Object''))"
    by (simp add: checkActionsAndHandle_def callHandlerOf_def exApp_def)
  finally have one: "handleRequest (\<lambda>m. m) exApp exInheritedRequest exHandlers exHeap
      = throwing TypeError (setProp h1 5 ''previousIntent'' (JStr ''Object''))" .
  have ne: "actions exGuardedApp \<noteq> []"
    and la: "lookupAction (actions exGuardedApp) (JStr ''@start'') (JStr ''Object'') = None"
    by (simp_all add: exGuardedApp_def lookupAction_def findAction_def matchesAction_def)
  have "handleRequest (\<lambda>m. m) exGuardedApp exInheritedRequest exHandlers exHeap
      = checkActionsAndHandle (Inherited (JStr ''Object'')) None 5 exGuardedApp exHandlers d1 h1"
    using handleRequest_dispatch(3) [OF valid(2) b q l(2), of "\<lambda>m. m" exHandlers] by simp
  also have "\<dots> = callHandler (replyWith (JStr ''Sorry'')) None 5 exGuardedApp d1 h1"
    using ne by (simp add: checkActionsAndHandle_def s la exHandlers_def)
  finally have two: "handleRequest (\<lambda>m. m) exGuardedApp exInheritedRequest exHandlers exHeap
      = callHandler (replyWith (JStr ''Sorry'')) None 5 exGuardedApp d1 h1" .
  show ?thesis
    unfolding one two
    by (simp add: none throwing_def getProp_setProp invoked_callHandler replyWith_thrown
        replyWith_delivers)
qed

end
